theory Spec2Isabelle
  imports Main "HOL-Library.Word"
begin

unbundle bit_operations_syntax

section \<open>Library primitives used by the handler\<close>

subsection \<open>crypto/sha256 and encoding/hex\<close>

text \<open>
  The handler derives short codes with \<^verbatim>\<open>sha256.Sum256\<close> and
  \<^verbatim>\<open>hex.EncodeToString\<close>. Both are modelled here on machine words, following the
  block function of the Go standard library (FIPS 180-4): a Go \<^verbatim>\<open>uint32\<close> is a
  \<open>32 word\<close>, a \<^verbatim>\<open>byte\<close> an \<open>8 word\<close>, and a Go string is its byte sequence.
\<close>

type_synonym byte = "8 word"
type_synonym uint32 = "32 word"
type_synonym uint64 = "64 word"
type_synonym int64 = "64 word"

definition bytes_of :: "string \<Rightarrow> byte list" where
  "bytes_of s = map (\<lambda>c. word_of_nat (of_char c)) s"

definition K256 :: "uint32 list" where
  "K256 =
    [0x428A2F98, 0x71374491, 0xB5C0FBCF, 0xE9B5DBA5, 0x3956C25B, 0x59F111F1, 0x923F82A4, 0xAB1C5ED5,
     0xD807AA98, 0x12835B01, 0x243185BE, 0x550C7DC3, 0x72BE5D74, 0x80DEB1FE, 0x9BDC06A7, 0xC19BF174,
     0xE49B69C1, 0xEFBE4786, 0x0FC19DC6, 0x240CA1CC, 0x2DE92C6F, 0x4A7484AA, 0x5CB0A9DC, 0x76F988DA,
     0x983E5152, 0xA831C66D, 0xB00327C8, 0xBF597FC7, 0xC6E00BF3, 0xD5A79147, 0x06CA6351, 0x14292967,
     0x27B70A85, 0x2E1B2138, 0x4D2C6DFC, 0x53380D13, 0x650A7354, 0x766A0ABB, 0x81C2C92E, 0x92722C85,
     0xA2BFE8A1, 0xA81A664B, 0xC24B8B70, 0xC76C51A3, 0xD192E819, 0xD6990624, 0xF40E3585, 0x106AA070,
     0x19A4C116, 0x1E376C08, 0x2748774C, 0x34B0BCB5, 0x391C0CB3, 0x4ED8AA4A, 0x5B9CCA4F, 0x682E6FF3,
     0x748F82EE, 0x78A5636F, 0x84C87814, 0x8CC70208, 0x90BEFFFA, 0xA4506CEB, 0xBEF9A3F7, 0xC67178F2]"

definition init256 :: "uint32 list" where
  "init256 =
    [0x6A09E667, 0xBB67AE85, 0x3C6EF372, 0xA54FF53A,
     0x510E527F, 0x9B05688C, 0x1F83D9AB, 0x5BE0CD19]"

definition rotr :: "nat \<Rightarrow> uint32 \<Rightarrow> uint32" where
  "rotr n x = drop_bit n x OR push_bit (32 - n) x"

text \<open>Big-endian loads of the 16 message words of a 64-byte chunk.\<close>

fun load_be32 :: "byte list \<Rightarrow> uint32 list" where
  "load_be32 (b0 # b1 # b2 # b3 # p) =
     (push_bit 24 (ucast b0) OR push_bit 16 (ucast b1) OR push_bit 8 (ucast b2) OR ucast b3)
       # load_be32 p"
| "load_be32 _ = []"

text \<open>The message schedule: \<open>w[i]\<close> for \<open>i = length w\<close>, from the words before it.\<close>

definition schedule_word :: "uint32 list \<Rightarrow> uint32" where
  "schedule_word w =
     (let i = length w;
          v1 = w ! (i - 2);
          t1 = rotr 17 v1 XOR rotr 19 v1 XOR drop_bit 10 v1;
          v2 = w ! (i - 15);
          t2 = rotr 7 v2 XOR rotr 18 v2 XOR drop_bit 3 v2
      in t1 + w ! (i - 7) + t2 + w ! (i - 16))"

fun expand :: "nat \<Rightarrow> uint32 list \<Rightarrow> uint32 list" where
  "expand 0 w = w"
| "expand (Suc n) w = expand n (w @ [schedule_word w])"

text \<open>One round of the compression loop on the working variables \<open>a \<dots> h\<close>.\<close>

fun round256 :: "uint32 list \<Rightarrow> uint32 \<times> uint32 \<Rightarrow> uint32 list" where
  "round256 [a, b, c, d, e, f, g, h] (k, wi) =
     (let t1 = h + (rotr 6 e XOR rotr 11 e XOR rotr 25 e) + ((e AND f) XOR (NOT e AND g)) + k + wi;
          t2 = (rotr 2 a XOR rotr 13 a XOR rotr 22 a) + ((a AND b) XOR (a AND c) XOR (b AND c))
      in [t1 + t2, a, b, c, d + t1, e, f, g])"
| "round256 s _ = s"

definition block256 :: "uint32 list \<Rightarrow> byte list \<Rightarrow> uint32 list" where
  "block256 hs p = map2 (+) hs (foldl round256 hs (zip K256 (expand 48 (load_be32 p))))"

function blockGeneric :: "uint32 list \<Rightarrow> byte list \<Rightarrow> uint32 list" where
  "blockGeneric hs p =
     (if 64 \<le> length p then blockGeneric (block256 hs (take 64 p)) (drop 64 p) else hs)"
  by pat_completeness auto
termination
  by (relation "measure (\<lambda>(hs, p). length p)") auto

definition PutUint64 :: "uint64 \<Rightarrow> byte list" where
  "PutUint64 v =
     [ucast (drop_bit 56 v), ucast (drop_bit 48 v), ucast (drop_bit 40 v), ucast (drop_bit 32 v),
      ucast (drop_bit 24 v), ucast (drop_bit 16 v), ucast (drop_bit 8 v), ucast v]"

definition PutUint32 :: "uint32 \<Rightarrow> byte list" where
  "PutUint32 v = [ucast (drop_bit 24 v), ucast (drop_bit 16 v), ucast (drop_bit 8 v), ucast v]"

text \<open>
  The padding written by \<^verbatim>\<open>checkSum\<close>: a 1 bit, zeros up to 56 bytes modulo 64, and
  the length in bits as a big-endian \<^verbatim>\<open>uint64\<close>.
\<close>

definition padding :: "nat \<Rightarrow> byte list" where
  "padding len =
     (let t = (if len mod 64 < 56 then 56 - len mod 64 else 64 + 56 - len mod 64)
      in 0x80 # replicate (t - 1) 0 @ PutUint64 (push_bit 3 (word_of_nat len)))"

definition sha256_Sum256 :: "byte list \<Rightarrow> byte list" where
  "sha256_Sum256 data =
     concat (map PutUint32 (blockGeneric init256 (data @ padding (length data))))"

definition hextable :: string where
  "hextable = ''0123456789abcdef''"

definition hex_EncodeToString :: "byte list \<Rightarrow> string" where
  "hex_EncodeToString src =
     concat (map (\<lambda>v. [hextable ! unat (drop_bit 4 v), hextable ! unat (v AND 0x0F)]) src)"

text \<open>The helper of \<^verbatim>\<open>main_test.go\<close>; \<^verbatim>\<open>handleCreate\<close> inlines the same expression.\<close>

definition generateShortCode :: "string \<Rightarrow> string" where
  "generateShortCode input = take 8 (hex_EncodeToString (sha256_Sum256 (bytes_of input)))"

subsection \<open>Libraries taken as given\<close>

text \<open>
  \<^verbatim>\<open>net/url\<close>, \<^verbatim>\<open>encoding/json\<close> and the \<^verbatim>\<open>time\<close> formatter are used by the
  handler as black boxes. They are parameters of the model (fields of \<open>env\<close> below);
  the handler only looks at the scheme of a parsed URL.
\<close>

datatype error =
    JSONError | URLParseError | MarshalError | UnmarshalError
  | DynamoDBError | CloudWatchError | ClientNotInitialized

record URL =
  Scheme :: string

datatype jvalue = JString string | JInt int64

text \<open>Reading a Go \<^verbatim>\<open>map[string]string\<close>: a missing key reads as the empty string.\<close>

definition index :: \<open>(string \<rightharpoonup> string) \<Rightarrow> string \<Rightarrow> string\<close> where
  \<open>index m k = (case m k of None \<Rightarrow> [] | Some v \<Rightarrow> v)\<close>

section \<open>Data model\<close>

text \<open>
  \<^verbatim>\<open>URLRecord\<close> is the only persisted entity. \<^verbatim>\<open>int64\<close> fields are 64-bit words,
  compared as two's complement numbers (\<open><s\<close>) as Go does.
\<close>

record URLRecord =
  ShortCode :: string
  OriginalURL :: string
  ExpiresAt :: int64
  CreatedAt :: string
  ClickCount :: int64

text \<open>
  A table item as \<^verbatim>\<open>attributevalue\<close> sees it: \<open>Attrs r\<close> is an attribute map that
  \<^verbatim>\<open>UnmarshalMap\<close> decodes into the record \<open>r\<close> (the image of \<^verbatim>\<open>MarshalMap\<close> is of
  this kind); \<open>Malformed k\<close> is an item stored under key \<open>k\<close> whose attributes
  \<^verbatim>\<open>UnmarshalMap\<close> rejects. The partition key \<^verbatim>\<open>short_code\<close> of an item is the
  \<open>ShortCode\<close> of the record it decodes to.
\<close>

datatype item = Attrs URLRecord | Malformed string

fun item_key :: \<open>item \<Rightarrow> string\<close> where
  \<open>item_key (Attrs r) = ShortCode r\<close>
| \<open>item_key (Malformed k) = k\<close>

fun MarshalMap :: \<open>URLRecord \<Rightarrow> error + item\<close> where
  \<open>MarshalMap r = Inr (Attrs r)\<close>

fun UnmarshalMap :: \<open>item \<Rightarrow> error + URLRecord\<close> where
  \<open>UnmarshalMap (Attrs r) = Inr r\<close>
| \<open>UnmarshalMap (Malformed k) = Inl UnmarshalError\<close>

text \<open>
  The state outside the handler: the DynamoDB table and the data points CloudWatch has
  accepted (metric name and value).
\<close>

record world =
  table :: \<open>item list\<close>
  metrics :: \<open>(string \<times> int) list\<close>

text \<open>
  What one invocation meets: the configuration set by \<^verbatim>\<open>init\<close>, the wall clock
  (\<open>time_Now E n\<close> is the \<open>n\<close>-th reading taken by the invocation, in Unix seconds),
  the black-box libraries, and whether each remote call fails. \<^verbatim>\<open>init\<close> has run on
  its AWS path, so \<^verbatim>\<open>dynamoClient\<close> is not nil.
\<close>

record env =
  baseURL :: string
  time_Now :: \<open>nat \<Rightarrow> int64\<close>
  time_Format :: \<open>int64 \<Rightarrow> string\<close>
  url_Parse :: \<open>string \<Rightarrow> error + URL\<close>
  json_Unmarshal :: \<open>string \<Rightarrow> error + (string \<rightharpoonup> string)\<close>
  json_Marshal :: \<open>(string \<times> jvalue) list \<Rightarrow> string\<close>
  GetItem_err :: bool
  PutItem_err :: bool
  Scan_err :: bool
  cloudwatchClient_nil :: bool
  PutMetricData_err :: bool

subsection \<open>DynamoDB and CloudWatch calls\<close>

definition GetItem :: \<open>env \<Rightarrow> string \<Rightarrow> world \<Rightarrow> error + item option\<close> where
  \<open>GetItem E k w =
     (if GetItem_err E then Inl DynamoDBError
      else Inr (find (\<lambda>it. item_key it = k) (table w)))\<close>

text \<open>\<^verbatim>\<open>PutItem\<close> without a condition expression replaces whatever the key holds.\<close>

definition PutItem :: \<open>env \<Rightarrow> item \<Rightarrow> world \<Rightarrow> error + world\<close> where
  \<open>PutItem E it w =
     (if PutItem_err E then Inl DynamoDBError
      else Inr (w\<lparr>table := it # filter (\<lambda>x. item_key x \<noteq> item_key it) (table w)\<rparr>))\<close>

text \<open>A single \<^verbatim>\<open>Scan\<close> call returns one page; the table is taken to fit into it.\<close>

definition Scan :: \<open>env \<Rightarrow> world \<Rightarrow> error + item list\<close> where
  \<open>Scan E w = (if Scan_err E then Inl DynamoDBError else Inr (table w))\<close>

definition publishCustomMetric :: \<open>env \<Rightarrow> string \<Rightarrow> int \<Rightarrow> world \<Rightarrow> error option \<times> world\<close> where
  \<open>publishCustomMetric E metricName v w =
     (if cloudwatchClient_nil E then (Some ClientNotInitialized, w)
      else if PutMetricData_err E then (Some CloudWatchError, w)
      else (None, w\<lparr>metrics := metrics w @ [(metricName, v)]\<rparr>))\<close>

section \<open>The handler\<close>

record request =
  Method :: string
  RawPath :: string
  PathParameters :: \<open>string \<rightharpoonup> string\<close>
  Body :: string

record response =
  StatusCode :: nat
  Headers :: \<open>string \<rightharpoonup> string\<close>
  Body :: string

text \<open>
  Every handler returns Go's pair of a response and an error, together with the world
  it leaves behind.
\<close>

type_synonym outcome = \<open>(response \<times> error option) \<times> world\<close>

definition handleCreate :: \<open>env \<Rightarrow> request \<Rightarrow> (string \<rightharpoonup> string) \<Rightarrow> world \<Rightarrow> outcome\<close> where
  \<open>handleCreate E req headers w =
     (case json_Unmarshal E (request.Body req) of
        Inl _ \<Rightarrow>
          ((\<lparr>StatusCode = 400, Headers = headers,
             Body = ''{"error": "Invalid JSON in request body"}''\<rparr>, None), w)
      | Inr requestData \<Rightarrow>
          let rawURL = index requestData ''url'' in
          if rawURL = [] then
            ((\<lparr>StatusCode = 400, Headers = headers,
               Body = ''{"error": "URL parameter is required"}''\<rparr>, None), w)
          else if (case url_Parse E rawURL of
                     Inl _ \<Rightarrow> True
                   | Inr parsedURL \<Rightarrow> Scheme parsedURL \<noteq> ''http'' \<and> Scheme parsedURL \<noteq> ''https'')
          then
            ((\<lparr>StatusCode = 400, Headers = headers,
               Body = ''{"error": "Invalid URL: only http and https allowed"}''\<rparr>, None), w)
          else
            let shortCode = take 8 (hex_EncodeToString (sha256_Sum256 (bytes_of rawURL)));
                expiresAt = time_Now E 0 + 604800;
                record = \<lparr>ShortCode = shortCode, OriginalURL = rawURL, ExpiresAt = expiresAt,
                          CreatedAt = time_Format E (time_Now E 1), ClickCount = 0\<rparr>
            in case MarshalMap record of
                 Inl _ \<Rightarrow>
                   ((\<lparr>StatusCode = 500, Headers = headers,
                      Body = ''{"error": "Internal server error"}''\<rparr>, None), w)
               | Inr item \<Rightarrow>
                   (case PutItem E item w of
                      Inl _ \<Rightarrow>
                        ((\<lparr>StatusCode = 500, Headers = headers,
                           Body = ''{"error": "Internal server error"}''\<rparr>, None), w)
                    | Inr w' \<Rightarrow>
                        ((\<lparr>StatusCode = 200, Headers = headers,
                           Body = json_Marshal E
                             [(''short_url'', JString (baseURL E @ ''/s/'' @ shortCode)),
                              (''expires_at'', JString (time_Format E expiresAt))]\<rparr>,
                          None), w')))\<close>

text \<open>
  The goroutine that publishes the metric runs detached and its error is dropped; the
  model lets it finish where it is started.
\<close>

definition handleRedirect :: \<open>env \<Rightarrow> request \<Rightarrow> (string \<rightharpoonup> string) \<Rightarrow> world \<Rightarrow> outcome\<close> where
  \<open>handleRedirect E req headers w =
     (let shortCode = index (PathParameters req) ''shortCode'' in
      case GetItem E shortCode w of
        Inl _ \<Rightarrow>
          ((\<lparr>StatusCode = 500, Headers = headers,
             Body = ''{"error": "Internal server error"}''\<rparr>, None), w)
      | Inr None \<Rightarrow>
          ((\<lparr>StatusCode = 404, Headers = headers,
             Body = ''{"error": "Short URL not found"}''\<rparr>, None), w)
      | Inr (Some resultItem) \<Rightarrow>
          (case UnmarshalMap resultItem of
             Inl _ \<Rightarrow>
               ((\<lparr>StatusCode = 500, Headers = headers,
                  Body = ''{"error": "Internal server error"}''\<rparr>, None), w)
           | Inr record0 \<Rightarrow>
               if ExpiresAt record0 <s time_Now E 0 then
                 ((\<lparr>StatusCode = 404, Headers = headers,
                    Body = ''{"error": "Short URL has expired"}''\<rparr>, None), w)
               else
                 let record = record0\<lparr>ClickCount := ClickCount record0 + 1\<rparr>;
                     w1 = (case MarshalMap record of
                             Inl _ \<Rightarrow> w
                           | Inr updatedItem \<Rightarrow>
                               (case PutItem E updatedItem w of Inl _ \<Rightarrow> w | Inr w' \<Rightarrow> w'));
                     w2 = snd (publishCustomMetric E ''UrlsAccessed'' 1 w1)
                 in ((\<lparr>StatusCode = 301,
                       Headers = headers(''Location'' \<mapsto> OriginalURL record),
                       Body = []\<rparr>, None), w2)))\<close>

text \<open>
  The write-back of \<^verbatim>\<open>handleRedirect\<close> taken alone (the increment and the
  \<^verbatim>\<open>PutItem\<close> that follows it). \<^verbatim>\<open>GetItem\<close> and \<^verbatim>\<open>PutItem\<close> are two calls
  to the store: the record put is the one read earlier, and the store it is put into may
  have been written by other requests since.
\<close>

definition write_back :: \<open>env \<Rightarrow> URLRecord \<Rightarrow> world \<Rightarrow> world\<close> where
  \<open>write_back E record0 w =
     (let record = record0\<lparr>ClickCount := ClickCount record0 + 1\<rparr> in
      case MarshalMap record of
        Inl _ \<Rightarrow> w
      | Inr updatedItem \<Rightarrow>
          (case PutItem E updatedItem w of Inl _ \<Rightarrow> w | Inr w' \<Rightarrow> w'))\<close>

text \<open>The loop of \<^verbatim>\<open>handleMetrics\<close> over the scanned items: \<open>(urlsCreated, urlsAccessed)\<close>.\<close>

definition count_item :: \<open>int64 \<times> int64 \<Rightarrow> item \<Rightarrow> int64 \<times> int64\<close> where
  \<open>count_item acc it =
     (case UnmarshalMap it of
        Inl _ \<Rightarrow> acc
      | Inr record \<Rightarrow> (fst acc + 1, snd acc + ClickCount record))\<close>

definition handleMetrics :: \<open>env \<Rightarrow> request \<Rightarrow> (string \<rightharpoonup> string) \<Rightarrow> world \<Rightarrow> outcome\<close> where
  \<open>handleMetrics E req headers w =
     (let w0 = snd (publishCustomMetric E ''MetricsAccessed'' 1 w) in
      case Scan E w0 of
        Inl _ \<Rightarrow>
          ((\<lparr>StatusCode = 200, Headers = headers,
             Body = json_Marshal E
               [(''urls_created'', JInt 0), (''urls_accessed'', JInt 0),
                (''unique_visitors'', JInt 0), (''active_urls'', JInt 0),
                (''timestamp'', JString (time_Format E (time_Now E 0))),
                (''error'', JString ''Failed to fetch metrics'')]\<rparr>, None), w0)
      | Inr items \<Rightarrow>
          let activeUrls = word_of_nat (length items);
              (urlsCreated, urlsAccessed) = foldl count_item (0, 0) items
          in ((\<lparr>StatusCode = 200, Headers = headers,
                Body = json_Marshal E
                  [(''urls_created'', JInt urlsCreated), (''urls_accessed'', JInt urlsAccessed),
                   (''unique_visitors'', JInt urlsAccessed), (''active_urls'', JInt activeUrls),
                   (''timestamp'', JString (time_Format E (time_Now E 0)))]\<rparr>, None), w0))\<close>

definition handleRequest :: \<open>env \<Rightarrow> request \<Rightarrow> world \<Rightarrow> outcome\<close> where
  \<open>handleRequest E req w =
     (let headers = [''Content-Type'' \<mapsto> ''application/json''] in
      if Method req = ''POST'' \<and> RawPath req = ''/create'' then handleCreate E req headers w
      else if Method req = ''GET'' \<and> index (PathParameters req) ''shortCode'' \<noteq> [] then
        handleRedirect E req headers w
      else if Method req = ''GET'' \<and> RawPath req = ''/metrics'' then handleMetrics E req headers w
      else ((\<lparr>StatusCode = 404, Headers = headers, Body = ''{"error": "Not found"}''\<rparr>, None), w))\<close>

text \<open>The records among scanned items, in scan order: those \<^verbatim>\<open>UnmarshalMap\<close> accepts.\<close>

fun scanned_records :: \<open>item list \<Rightarrow> URLRecord list\<close> where
  \<open>scanned_records [] = []\<close>
| \<open>scanned_records (it # items) =
     (case UnmarshalMap it of
        Inl _ \<Rightarrow> scanned_records items
      | Inr r \<Rightarrow> r # scanned_records items)\<close>

text \<open>
  Every item a handler puts is the image of a \<^verbatim>\<open>URLRecord\<close> under \<^verbatim>\<open>MarshalMap\<close>.
  A table written by the handlers alone therefore holds records only.
\<close>

fun is_record :: \<open>item \<Rightarrow> bool\<close> where
  \<open>is_record (Attrs r) = True\<close>
| \<open>is_record (Malformed k) = False\<close>

definition only_records :: \<open>world \<Rightarrow> bool\<close> where
  \<open>only_records w = list_all is_record (table w)\<close>

text \<open>
  \<open>wrap32\<close> is the identity on \<^typ>\<open>uint32\<close>. It marks the places where a concrete
  evaluation reduces a numeral modulo \<open>2 ^ 32\<close>.
\<close>

definition wrap32 :: "uint32 \<Rightarrow> uint32" where
  "wrap32 x = x"

section \<open>Test doubles\<close>

text \<open>
  Concrete inputs for the closed examples below. \<open>test_Parse\<close> and \<open>test_Unmarshal\<close>
  answer as \<^verbatim>\<open>net/url\<close> and \<^verbatim>\<open>encoding/json\<close> do on the inputs listed, as in the
  tables of \<^verbatim>\<open>main_test.go\<close>; \<open>test_Marshal\<close> renders an object with numbers as tally
  marks; the clock of \<open>test_env now\<close> reads \<open>now\<close> and no remote call fails.
\<close>

definition test_Parse :: \<open>string \<Rightarrow> error + URL\<close> where
  \<open>test_Parse s =
     (if s = ''https://foo.com'' then Inr \<lparr>Scheme = ''https''\<rparr>
      else if s = ''http://foo.com'' then Inr \<lparr>Scheme = ''http''\<rparr>
      else if s = ''ftp://foo.com'' then Inr \<lparr>Scheme = ''ftp''\<rparr>
      else if s = ''not-a-url'' then Inr \<lparr>Scheme = []\<rparr>
      else Inl URLParseError)\<close>

definition test_Unmarshal :: \<open>string \<Rightarrow> error + (string \<rightharpoonup> string)\<close> where
  \<open>test_Unmarshal b =
     (if b = ''{"url":"https://foo.com"}'' then Inr [''url'' \<mapsto> ''https://foo.com'']
      else if b = ''{"url":"ftp://foo.com"}'' then Inr [''url'' \<mapsto> ''ftp://foo.com'']
      else if b = ''{}'' then Inr Map.empty
      else Inl JSONError)\<close>

definition test_Marshal :: \<open>(string \<times> jvalue) list \<Rightarrow> string\<close> where
  \<open>test_Marshal kvs =
     concat (map (\<lambda>(k, v). k @ '':'' @
       (case v of JString s \<Rightarrow> s | JInt n \<Rightarrow> replicate (unat n) CHR ''|'') @ '';'') kvs)\<close>

definition test_env :: \<open>int64 \<Rightarrow> env\<close> where
  \<open>test_env now =
     \<lparr>baseURL = ''https://test.vibtellect.de'', time_Now = (\<lambda>n. now),
      time_Format = (\<lambda>t. []), url_Parse = test_Parse, json_Unmarshal = test_Unmarshal,
      json_Marshal = test_Marshal, GetItem_err = False, PutItem_err = False, Scan_err = False,
      cloudwatchClient_nil = False, PutMetricData_err = False\<rparr>\<close>

definition json_headers :: \<open>string \<rightharpoonup> string\<close> where
  \<open>json_headers = [''Content-Type'' \<mapsto> ''application/json'']\<close>

definition post_create :: \<open>string \<Rightarrow> request\<close> where
  \<open>post_create body =
     \<lparr>Method = ''POST'', RawPath = ''/create'', PathParameters = Map.empty, Body = body\<rparr>\<close>

definition get_short :: \<open>string \<Rightarrow> request\<close> where
  \<open>get_short code =
     \<lparr>Method = ''GET'', RawPath = ''/s/'' @ code, PathParameters = [''shortCode'' \<mapsto> code],
      Body = []\<rparr>\<close>

definition foo_record :: \<open>int64 \<Rightarrow> int64 \<Rightarrow> URLRecord\<close> where
  \<open>foo_record expires clicks =
     \<lparr>ShortCode = ''a9a9b569'', OriginalURL = ''https://foo.com'', ExpiresAt = expires,
      CreatedAt = [], ClickCount = clicks\<rparr>\<close>

definition world_of :: \<open>item list \<Rightarrow> world\<close> where
  \<open>world_of items = \<lparr>table = items, metrics = []\<rparr>\<close>

definition get_metrics :: \<open>request\<close> where
  \<open>get_metrics = \<lparr>Method = ''GET'', RawPath = ''/metrics'', PathParameters = Map.empty, Body = []\<rparr>\<close>

definition bar_record :: \<open>int64 \<Rightarrow> int64 \<Rightarrow> URLRecord\<close> where
  \<open>bar_record expires clicks =
     \<lparr>ShortCode = ''23d97719'', OriginalURL = ''https://bar.com'', ExpiresAt = expires,
      CreatedAt = [], ClickCount = clicks\<rparr>\<close>

text \<open>
  A clock that ticks between two readings, with the RFC 3339 texts (UTC) of the three
  instants that occur.
\<close>

definition test_Format :: \<open>int64 \<Rightarrow> string\<close> where
  \<open>test_Format t =
     (if t = 1700000000 then ''2023-11-14T22:13:20Z''
      else if t = 1700000001 then ''2023-11-14T22:13:21Z''
      else if t = 1700604800 then ''2023-11-21T22:13:20Z''
      else [])\<close>

definition tick_env :: \<open>env\<close> where
  \<open>tick_env =
     (test_env 1700000000)\<lparr>time_Now := (\<lambda>n. 1700000000 + word_of_nat n),
        time_Format := test_Format\<rparr>\<close>

section \<open>Evaluating the digest\<close>

text \<open>
  The simplifier computes on word numerals without reducing them modulo \<open>2 ^ 32\<close>, so
  the evaluation rules below reduce after every addition (\<open>wrap32\<close>). The digests are
  then computed chunk by chunk: message words, schedule, 64 rounds, new state.
\<close>

lemma word_of_nat_mod32: "(word_of_nat (m mod 2 ^ 32) :: uint32) = word_of_nat m"
  by (simp add: word_of_nat_eq_iff take_bit_eq_mod)

lemma wrap32_numeral:
  "wrap32 (numeral n) = word_of_nat (numeral n mod 4294967296)"
proof -
  have p: "(2::nat) ^ 32 = 4294967296"
    by simp
  have "(word_of_nat (numeral n mod 4294967296) :: uint32) = word_of_nat (numeral n)"
    using word_of_nat_mod32 [of "numeral n"] unfolding p .
  also have "\<dots> = numeral n"
    by (rule of_nat_numeral)
  finally show ?thesis
    unfolding wrap32_def by (rule sym)
qed

lemma wrap32_0: "wrap32 0 = 0"
  by (simp add: wrap32_def)

lemma wrap32_1: "wrap32 1 = 1"
  by (simp add: wrap32_def)

lemmas wrap32_eval = wrap32_numeral wrap32_0 wrap32_1

lemma round256_eval:
  "round256 [a, b, c, d, e, f, g, h] (k, wi) =
     (let t1 = wrap32 (h + (rotr 6 e XOR rotr 11 e XOR rotr 25 e)
                 + ((e AND f) XOR (NOT e AND g)) + k + wi);
          t2 = wrap32 ((rotr 2 a XOR rotr 13 a XOR rotr 22 a)
                 + ((a AND b) XOR (a AND c) XOR (b AND c)))
      in [wrap32 (t1 + t2), a, b, c, wrap32 (d + t1), e, f, g])"
  by (simp add: wrap32_def)

lemma replicate_numeral_eval:
  "replicate (numeral k) x = x # replicate (pred_numeral k) x"
  by (simp add: numeral_eq_Suc)

lemma expand_eval:
  "expand (numeral k) w = expand (pred_numeral k) (w @ [wrap32 (schedule_word w)])"
  by (simp add: numeral_eq_Suc wrap32_def)

lemma foo_chunk:
  "bytes_of ''https://foo.com'' @ padding (length (bytes_of ''https://foo.com'')) =
    [0x68, 0x74, 0x74, 0x70, 0x73, 0x3A, 0x2F, 0x2F, 0x66, 0x6F, 0x6F, 0x2E, 0x63, 0x6F, 0x6D, 0x80,
     0x00, 0x00, 0x00, 0x00, 0x00, 0x00, 0x00, 0x00, 0x00, 0x00, 0x00, 0x00, 0x00, 0x00, 0x00, 0x00,
     0x00, 0x00, 0x00, 0x00, 0x00, 0x00, 0x00, 0x00, 0x00, 0x00, 0x00, 0x00, 0x00, 0x00, 0x00, 0x00,
     0x00, 0x00, 0x00, 0x00, 0x00, 0x00, 0x00, 0x00, 0x00, 0x00, 0x00, 0x00, 0x00, 0x00, 0x00, 0x78]"
  by (simp add: bytes_of_def padding_def PutUint64_def replicate_numeral_eval)

lemma foo_words:
  "load_be32
    [0x68, 0x74, 0x74, 0x70, 0x73, 0x3A, 0x2F, 0x2F, 0x66, 0x6F, 0x6F, 0x2E, 0x63, 0x6F, 0x6D, 0x80,
     0x00, 0x00, 0x00, 0x00, 0x00, 0x00, 0x00, 0x00, 0x00, 0x00, 0x00, 0x00, 0x00, 0x00, 0x00, 0x00,
     0x00, 0x00, 0x00, 0x00, 0x00, 0x00, 0x00, 0x00, 0x00, 0x00, 0x00, 0x00, 0x00, 0x00, 0x00, 0x00,
     0x00, 0x00, 0x00, 0x00, 0x00, 0x00, 0x00, 0x00, 0x00, 0x00, 0x00, 0x00, 0x00, 0x00, 0x00, 0x78] =
    [0x68747470, 0x733A2F2F, 0x666F6F2E, 0x636F6D80, 0x00000000, 0x00000000, 0x00000000, 0x00000000,
     0x00000000, 0x00000000, 0x00000000, 0x00000000, 0x00000000, 0x00000000, 0x00000000, 0x00000078]"
  by simp

lemma foo_schedule:
  "expand 48
    [0x68747470, 0x733A2F2F, 0x666F6F2E, 0x636F6D80, 0x00000000, 0x00000000, 0x00000000, 0x00000000,
     0x00000000, 0x00000000, 0x00000000, 0x00000000, 0x00000000, 0x00000000, 0x00000000, 0x00000078] =
    [0x68747470, 0x733A2F2F, 0x666F6F2E, 0x636F6D80, 0x00000000, 0x00000000, 0x00000000, 0x00000000,
     0x00000000, 0x00000000, 0x00000000, 0x00000000, 0x00000000, 0x00000000, 0x00000000, 0x00000078,
     0x43BF61E5, 0xFF37D9CF, 0x9B19814E, 0x7B513B0B, 0xF0A8588F, 0xBAFA068C, 0x276A2CCF, 0x8778D688,
     0x532F87A2, 0x0CCE0EB4, 0xAE82E31E, 0xB7380D0C, 0xE8C128B5, 0x2E743047, 0x290D4FC9, 0x0BDA3A22,
     0xD510CED4, 0xF61914F2, 0x28359E36, 0x24C4AED4, 0x2B7DFFB3, 0xB8515640, 0xA7AD6141, 0x8D7B4003,
     0x50170807, 0x8D7188B1, 0x45293632, 0x150895AA, 0xE6644566, 0xF30894AD, 0x2C933881, 0x35ADD4EC,
     0x1BF19BCB, 0x9B049531, 0xC33C5C76, 0x0016C2D7, 0x87F6B1BE, 0x6E00937B, 0x32DA22B4, 0xCBD951C7,
     0x50B47851, 0xF53BB5CA, 0x6C582F37, 0x09BAABFE, 0xC777A60B, 0xF0506CE6, 0xCC47BD63, 0xB5F11628]"
  by (simp add: expand_eval schedule_word_def rotr_def Let_def wrap32_eval)

lemma foo_rounds:
  "foldl round256 init256 (zip K256
    [0x68747470, 0x733A2F2F, 0x666F6F2E, 0x636F6D80, 0x00000000, 0x00000000, 0x00000000, 0x00000000,
     0x00000000, 0x00000000, 0x00000000, 0x00000000, 0x00000000, 0x00000000, 0x00000000, 0x00000078,
     0x43BF61E5, 0xFF37D9CF, 0x9B19814E, 0x7B513B0B, 0xF0A8588F, 0xBAFA068C, 0x276A2CCF, 0x8778D688,
     0x532F87A2, 0x0CCE0EB4, 0xAE82E31E, 0xB7380D0C, 0xE8C128B5, 0x2E743047, 0x290D4FC9, 0x0BDA3A22,
     0xD510CED4, 0xF61914F2, 0x28359E36, 0x24C4AED4, 0x2B7DFFB3, 0xB8515640, 0xA7AD6141, 0x8D7B4003,
     0x50170807, 0x8D7188B1, 0x45293632, 0x150895AA, 0xE6644566, 0xF30894AD, 0x2C933881, 0x35ADD4EC,
     0x1BF19BCB, 0x9B049531, 0xC33C5C76, 0x0016C2D7, 0x87F6B1BE, 0x6E00937B, 0x32DA22B4, 0xCBD951C7,
     0x50B47851, 0xF53BB5CA, 0x6C582F37, 0x09BAABFE, 0xC777A60B, 0xF0506CE6, 0xCC47BD63, 0xB5F11628]) =
    [0x3F9FCF02, 0xEB33CD58, 0x5E8129D8, 0x50DC947C,
     0x9AEA8D1D, 0xB4727108, 0x2C327589, 0x8BE0146D]"
  by (simp add: init256_def K256_def round256_eval rotr_def Let_def wrap32_eval
      del: round256.simps)

lemma foo_block:
  "block256 init256
    [0x68, 0x74, 0x74, 0x70, 0x73, 0x3A, 0x2F, 0x2F, 0x66, 0x6F, 0x6F, 0x2E, 0x63, 0x6F, 0x6D, 0x80,
     0x00, 0x00, 0x00, 0x00, 0x00, 0x00, 0x00, 0x00, 0x00, 0x00, 0x00, 0x00, 0x00, 0x00, 0x00, 0x00,
     0x00, 0x00, 0x00, 0x00, 0x00, 0x00, 0x00, 0x00, 0x00, 0x00, 0x00, 0x00, 0x00, 0x00, 0x00, 0x00,
     0x00, 0x00, 0x00, 0x00, 0x00, 0x00, 0x00, 0x00, 0x00, 0x00, 0x00, 0x00, 0x00, 0x00, 0x00, 0x78] =
    [0xA9A9B569, 0xA69B7BDD, 0x9AF01D4A, 0xF62C89B6,
     0xEBF8DF9C, 0x4F77D994, 0x4BB64F34, 0xE7C0E186]"
  unfolding block256_def foo_words foo_schedule foo_rounds
  by (simp add: init256_def)

lemma foo_digest:
  "sha256_Sum256 (bytes_of ''https://foo.com'') =
    [0xA9, 0xA9, 0xB5, 0x69, 0xA6, 0x9B, 0x7B, 0xDD, 0x9A, 0xF0, 0x1D, 0x4A, 0xF6, 0x2C, 0x89, 0xB6,
     0xEB, 0xF8, 0xDF, 0x9C, 0x4F, 0x77, 0xD9, 0x94, 0x4B, 0xB6, 0x4F, 0x34, 0xE7, 0xC0, 0xE1, 0x86]"
  unfolding sha256_Sum256_def foo_chunk
  by (simp add: blockGeneric.simps foo_block PutUint32_def)

lemma foo_code: "generateShortCode ''https://foo.com'' = ''a9a9b569''"
  by (simp add: generateShortCode_def foo_digest hex_EncodeToString_def hextable_def)

lemma bar_chunk:
  "bytes_of ''https://bar.com'' @ padding (length (bytes_of ''https://bar.com'')) =
    [0x68, 0x74, 0x74, 0x70, 0x73, 0x3A, 0x2F, 0x2F, 0x62, 0x61, 0x72, 0x2E, 0x63, 0x6F, 0x6D, 0x80,
     0x00, 0x00, 0x00, 0x00, 0x00, 0x00, 0x00, 0x00, 0x00, 0x00, 0x00, 0x00, 0x00, 0x00, 0x00, 0x00,
     0x00, 0x00, 0x00, 0x00, 0x00, 0x00, 0x00, 0x00, 0x00, 0x00, 0x00, 0x00, 0x00, 0x00, 0x00, 0x00,
     0x00, 0x00, 0x00, 0x00, 0x00, 0x00, 0x00, 0x00, 0x00, 0x00, 0x00, 0x00, 0x00, 0x00, 0x00, 0x78]"
  by (simp add: bytes_of_def padding_def PutUint64_def replicate_numeral_eval)

lemma bar_words:
  "load_be32
    [0x68, 0x74, 0x74, 0x70, 0x73, 0x3A, 0x2F, 0x2F, 0x62, 0x61, 0x72, 0x2E, 0x63, 0x6F, 0x6D, 0x80,
     0x00, 0x00, 0x00, 0x00, 0x00, 0x00, 0x00, 0x00, 0x00, 0x00, 0x00, 0x00, 0x00, 0x00, 0x00, 0x00,
     0x00, 0x00, 0x00, 0x00, 0x00, 0x00, 0x00, 0x00, 0x00, 0x00, 0x00, 0x00, 0x00, 0x00, 0x00, 0x00,
     0x00, 0x00, 0x00, 0x00, 0x00, 0x00, 0x00, 0x00, 0x00, 0x00, 0x00, 0x00, 0x00, 0x00, 0x00, 0x78] =
    [0x68747470, 0x733A2F2F, 0x6261722E, 0x636F6D80, 0x00000000, 0x00000000, 0x00000000, 0x00000000,
     0x00000000, 0x00000000, 0x00000000, 0x00000000, 0x00000000, 0x00000000, 0x00000000, 0x00000078]"
  by simp

lemma bar_schedule:
  "expand 48
    [0x68747470, 0x733A2F2F, 0x6261722E, 0x636F6D80, 0x00000000, 0x00000000, 0x00000000, 0x00000000,
     0x00000000, 0x00000000, 0x00000000, 0x00000000, 0x00000000, 0x00000000, 0x00000000, 0x00000078] =
    [0x68747470, 0x733A2F2F, 0x6261722E, 0x636F6D80, 0x00000000, 0x00000000, 0x00000000, 0x00000000,
     0x00000000, 0x00000000, 0x00000000, 0x00000000, 0x00000000, 0x00000000, 0x00000000, 0x00000078,
     0x43BF61E5, 0x7F70A368, 0x970B844E, 0xA93659FE, 0xB28B5B85, 0xE7EACC2B, 0xC69ECE3A, 0x8368D7A0,
     0x3E5C3F97, 0x0810103A, 0x416D49E8, 0xBCA39C93, 0xF5C43FF4, 0x84934F5C, 0x0BC06D04, 0x274AF827,
     0x7EBAD199, 0x52D95585, 0x049A6CE0, 0xEB3660B9, 0xAB44450D, 0xCEEC9490, 0xFC7B63BD, 0x01605EE1,
     0xDFE894A9, 0xBC2CD99A, 0x5D63B450, 0x58671735, 0xEBB2C0C5, 0xFCA7619D, 0x3A0F732A, 0xED42652D,
     0xE886517A, 0x89E79DC8, 0x364866F7, 0x33E5B8A0, 0x04F90E9E, 0x30DDD448, 0x65F250C3, 0xA7F08DA1,
     0xE0CC42CF, 0x8FC50270, 0xDEC12730, 0xA54614A2, 0xCFE537D7, 0xBB8587EE, 0xFE5C9B4D, 0xBDD2907B]"
  by (simp add: expand_eval schedule_word_def rotr_def Let_def wrap32_eval)

lemma bar_rounds:
  "foldl round256 init256 (zip K256
    [0x68747470, 0x733A2F2F, 0x6261722E, 0x636F6D80, 0x00000000, 0x00000000, 0x00000000, 0x00000000,
     0x00000000, 0x00000000, 0x00000000, 0x00000000, 0x00000000, 0x00000000, 0x00000000, 0x00000078,
     0x43BF61E5, 0x7F70A368, 0x970B844E, 0xA93659FE, 0xB28B5B85, 0xE7EACC2B, 0xC69ECE3A, 0x8368D7A0,
     0x3E5C3F97, 0x0810103A, 0x416D49E8, 0xBCA39C93, 0xF5C43FF4, 0x84934F5C, 0x0BC06D04, 0x274AF827,
     0x7EBAD199, 0x52D95585, 0x049A6CE0, 0xEB3660B9, 0xAB44450D, 0xCEEC9490, 0xFC7B63BD, 0x01605EE1,
     0xDFE894A9, 0xBC2CD99A, 0x5D63B450, 0x58671735, 0xEBB2C0C5, 0xFCA7619D, 0x3A0F732A, 0xED42652D,
     0xE886517A, 0x89E79DC8, 0x364866F7, 0x33E5B8A0, 0x04F90E9E, 0x30DDD448, 0x65F250C3, 0xA7F08DA1,
     0xE0CC42CF, 0x8FC50270, 0xDEC12730, 0xA54614A2, 0xCFE537D7, 0xBB8587EE, 0xFE5C9B4D, 0xBDD2907B]) =
    [0xB9CF90B2, 0xB4AC0F2B, 0x3A027046, 0xE3B84AED,
     0x1EE23893, 0xAFE54F3E, 0xE01CE30C, 0x78C2797F]"
  by (simp add: init256_def K256_def round256_eval rotr_def Let_def wrap32_eval
      del: round256.simps)

lemma bar_block:
  "block256 init256
    [0x68, 0x74, 0x74, 0x70, 0x73, 0x3A, 0x2F, 0x2F, 0x62, 0x61, 0x72, 0x2E, 0x63, 0x6F, 0x6D, 0x80,
     0x00, 0x00, 0x00, 0x00, 0x00, 0x00, 0x00, 0x00, 0x00, 0x00, 0x00, 0x00, 0x00, 0x00, 0x00, 0x00,
     0x00, 0x00, 0x00, 0x00, 0x00, 0x00, 0x00, 0x00, 0x00, 0x00, 0x00, 0x00, 0x00, 0x00, 0x00, 0x00,
     0x00, 0x00, 0x00, 0x00, 0x00, 0x00, 0x00, 0x00, 0x00, 0x00, 0x00, 0x00, 0x00, 0x00, 0x00, 0x78] =
    [0x23D97719, 0x7013BDB0, 0x767163B8, 0x89084027,
     0x6FF08B12, 0x4AEAB7CA, 0xFFA0BCB7, 0xD4A34698]"
  unfolding block256_def bar_words bar_schedule bar_rounds
  by (simp add: init256_def)

lemma bar_digest:
  "sha256_Sum256 (bytes_of ''https://bar.com'') =
    [0x23, 0xD9, 0x77, 0x19, 0x70, 0x13, 0xBD, 0xB0, 0x76, 0x71, 0x63, 0xB8, 0x89, 0x08, 0x40, 0x27,
     0x6F, 0xF0, 0x8B, 0x12, 0x4A, 0xEA, 0xB7, 0xCA, 0xFF, 0xA0, 0xBC, 0xB7, 0xD4, 0xA3, 0x46, 0x98]"
  unfolding sha256_Sum256_def bar_chunk
  by (simp add: blockGeneric.simps bar_block PutUint32_def)

lemma bar_code: "generateShortCode ''https://bar.com'' = ''23d97719''"
  by (simp add: generateShortCode_def bar_digest hex_EncodeToString_def hextable_def)

text \<open>
  A message of two chunks, the input of \<^verbatim>\<open>BenchmarkGenerateShortCode\<close>: the second
  chunk is compressed from the state the first one leaves.
\<close>

lemma bench_chunks:
  "bytes_of ''https://example.com/very/long/url/with/many/parameters?foo=bar&baz=qux'' @
     padding (length (bytes_of ''https://example.com/very/long/url/with/many/parameters?foo=bar&baz=qux'')) =
    [0x68, 0x74, 0x74, 0x70, 0x73, 0x3A, 0x2F, 0x2F, 0x65, 0x78, 0x61, 0x6D, 0x70, 0x6C, 0x65, 0x2E,
     0x63, 0x6F, 0x6D, 0x2F, 0x76, 0x65, 0x72, 0x79, 0x2F, 0x6C, 0x6F, 0x6E, 0x67, 0x2F, 0x75, 0x72,
     0x6C, 0x2F, 0x77, 0x69, 0x74, 0x68, 0x2F, 0x6D, 0x61, 0x6E, 0x79, 0x2F, 0x70, 0x61, 0x72, 0x61,
     0x6D, 0x65, 0x74, 0x65, 0x72, 0x73, 0x3F, 0x66, 0x6F, 0x6F, 0x3D, 0x62, 0x61, 0x72, 0x26, 0x62,
     0x61, 0x7A, 0x3D, 0x71, 0x75, 0x78, 0x80, 0x00, 0x00, 0x00, 0x00, 0x00, 0x00, 0x00, 0x00, 0x00,
     0x00, 0x00, 0x00, 0x00, 0x00, 0x00, 0x00, 0x00, 0x00, 0x00, 0x00, 0x00, 0x00, 0x00, 0x00, 0x00,
     0x00, 0x00, 0x00, 0x00, 0x00, 0x00, 0x00, 0x00, 0x00, 0x00, 0x00, 0x00, 0x00, 0x00, 0x00, 0x00,
     0x00, 0x00, 0x00, 0x00, 0x00, 0x00, 0x00, 0x00, 0x00, 0x00, 0x00, 0x00, 0x00, 0x00, 0x02, 0x30]"
  by (simp add: bytes_of_def padding_def PutUint64_def replicate_numeral_eval)

lemma bench_words1:
  "load_be32
    [0x68, 0x74, 0x74, 0x70, 0x73, 0x3A, 0x2F, 0x2F, 0x65, 0x78, 0x61, 0x6D, 0x70, 0x6C, 0x65, 0x2E,
     0x63, 0x6F, 0x6D, 0x2F, 0x76, 0x65, 0x72, 0x79, 0x2F, 0x6C, 0x6F, 0x6E, 0x67, 0x2F, 0x75, 0x72,
     0x6C, 0x2F, 0x77, 0x69, 0x74, 0x68, 0x2F, 0x6D, 0x61, 0x6E, 0x79, 0x2F, 0x70, 0x61, 0x72, 0x61,
     0x6D, 0x65, 0x74, 0x65, 0x72, 0x73, 0x3F, 0x66, 0x6F, 0x6F, 0x3D, 0x62, 0x61, 0x72, 0x26, 0x62] =
    [0x68747470, 0x733A2F2F, 0x6578616D, 0x706C652E, 0x636F6D2F, 0x76657279, 0x2F6C6F6E, 0x672F7572,
     0x6C2F7769, 0x74682F6D, 0x616E792F, 0x70617261, 0x6D657465, 0x72733F66, 0x6F6F3D62, 0x61722662]"
  by simp

lemma bench_schedule1:
  "expand 48
    [0x68747470, 0x733A2F2F, 0x6578616D, 0x706C652E, 0x636F6D2F, 0x76657279, 0x2F6C6F6E, 0x672F7572,
     0x6C2F7769, 0x74682F6D, 0x616E792F, 0x70617261, 0x6D657465, 0x72733F66, 0x6F6F3D62, 0x61722662] =
    [0x68747470, 0x733A2F2F, 0x6578616D, 0x706C652E, 0x636F6D2F, 0x76657279, 0x2F6C6F6E, 0x672F7572,
     0x6C2F7769, 0x74682F6D, 0x616E792F, 0x70617261, 0x6D657465, 0x72733F66, 0x6F6F3D62, 0x61722662,
     0x312E32E7, 0xFACC6E2D, 0x00A3D180, 0x22A0B65B, 0x09910E78, 0xF62BEBEC, 0x6D472118, 0x239C028B,
     0xBB6ED902, 0xC2CCDF36, 0xCC13B1A6, 0x08AECA1E, 0x1FD938C6, 0xA274F17B, 0x8FFBB322, 0x48998E1E,
     0x02F966B5, 0xB23428CA, 0x4866DA27, 0x8689732E, 0xA01D6B9C, 0x132F4207, 0xE10CE340, 0x1438B1AB,
     0x9DA4E456, 0x128D8267, 0xD0A7202F, 0xDC3D10D0, 0x868355AC, 0x65EF7294, 0xBA7C690A, 0x7137D6AF,
     0x5821C04C, 0x858F292A, 0x0DF5377C, 0xF642FA39, 0x20224A48, 0x9545BE55, 0x376F78CE, 0x5CBA0D87,
     0x239483EF, 0xF5A58398, 0x96789A34, 0x0A97B5DC, 0x731585A2, 0xE22FE8C2, 0x2F1F724F, 0x81B56EC7]"
  by (simp add: expand_eval schedule_word_def rotr_def Let_def wrap32_eval)

lemma bench_rounds1:
  "foldl round256
    [0x6A09E667, 0xBB67AE85, 0x3C6EF372, 0xA54FF53A,
     0x510E527F, 0x9B05688C, 0x1F83D9AB, 0x5BE0CD19]
    (zip K256
    [0x68747470, 0x733A2F2F, 0x6578616D, 0x706C652E, 0x636F6D2F, 0x76657279, 0x2F6C6F6E, 0x672F7572,
     0x6C2F7769, 0x74682F6D, 0x616E792F, 0x70617261, 0x6D657465, 0x72733F66, 0x6F6F3D62, 0x61722662,
     0x312E32E7, 0xFACC6E2D, 0x00A3D180, 0x22A0B65B, 0x09910E78, 0xF62BEBEC, 0x6D472118, 0x239C028B,
     0xBB6ED902, 0xC2CCDF36, 0xCC13B1A6, 0x08AECA1E, 0x1FD938C6, 0xA274F17B, 0x8FFBB322, 0x48998E1E,
     0x02F966B5, 0xB23428CA, 0x4866DA27, 0x8689732E, 0xA01D6B9C, 0x132F4207, 0xE10CE340, 0x1438B1AB,
     0x9DA4E456, 0x128D8267, 0xD0A7202F, 0xDC3D10D0, 0x868355AC, 0x65EF7294, 0xBA7C690A, 0x7137D6AF,
     0x5821C04C, 0x858F292A, 0x0DF5377C, 0xF642FA39, 0x20224A48, 0x9545BE55, 0x376F78CE, 0x5CBA0D87,
     0x239483EF, 0xF5A58398, 0x96789A34, 0x0A97B5DC, 0x731585A2, 0xE22FE8C2, 0x2F1F724F, 0x81B56EC7]) =
    [0xEDB0E9B3, 0xCE114DDD, 0x7C2E24CC, 0xB6BCBF40,
     0xDB4FA3A6, 0xDB3093C0, 0xE94EEBB4, 0x972023A8]"
  by (simp add: K256_def round256_eval rotr_def Let_def wrap32_eval
      del: round256.simps)

lemma bench_block1:
  "block256
    [0x6A09E667, 0xBB67AE85, 0x3C6EF372, 0xA54FF53A,
     0x510E527F, 0x9B05688C, 0x1F83D9AB, 0x5BE0CD19]
    [0x68, 0x74, 0x74, 0x70, 0x73, 0x3A, 0x2F, 0x2F, 0x65, 0x78, 0x61, 0x6D, 0x70, 0x6C, 0x65, 0x2E,
     0x63, 0x6F, 0x6D, 0x2F, 0x76, 0x65, 0x72, 0x79, 0x2F, 0x6C, 0x6F, 0x6E, 0x67, 0x2F, 0x75, 0x72,
     0x6C, 0x2F, 0x77, 0x69, 0x74, 0x68, 0x2F, 0x6D, 0x61, 0x6E, 0x79, 0x2F, 0x70, 0x61, 0x72, 0x61,
     0x6D, 0x65, 0x74, 0x65, 0x72, 0x73, 0x3F, 0x66, 0x6F, 0x6F, 0x3D, 0x62, 0x61, 0x72, 0x26, 0x62] =
    [0x57BAD01A, 0x8978FC62, 0xB89D183E, 0x5C0CB47A,
     0x2C5DF625, 0x7635FC4C, 0x08D2C55F, 0xF300F0C1]"
  unfolding block256_def bench_words1 bench_schedule1 bench_rounds1
  by simp

lemma bench_words2:
  "load_be32
    [0x61, 0x7A, 0x3D, 0x71, 0x75, 0x78, 0x80, 0x00, 0x00, 0x00, 0x00, 0x00, 0x00, 0x00, 0x00, 0x00,
     0x00, 0x00, 0x00, 0x00, 0x00, 0x00, 0x00, 0x00, 0x00, 0x00, 0x00, 0x00, 0x00, 0x00, 0x00, 0x00,
     0x00, 0x00, 0x00, 0x00, 0x00, 0x00, 0x00, 0x00, 0x00, 0x00, 0x00, 0x00, 0x00, 0x00, 0x00, 0x00,
     0x00, 0x00, 0x00, 0x00, 0x00, 0x00, 0x00, 0x00, 0x00, 0x00, 0x00, 0x00, 0x00, 0x00, 0x02, 0x30] =
    [0x617A3D71, 0x75788000, 0x00000000, 0x00000000, 0x00000000, 0x00000000, 0x00000000, 0x00000000,
     0x00000000, 0x00000000, 0x00000000, 0x00000000, 0x00000000, 0x00000000, 0x00000000, 0x00000230]"
  by simp

lemma bench_schedule2:
  "expand 48
    [0x617A3D71, 0x75788000, 0x00000000, 0x00000000, 0x00000000, 0x00000000, 0x00000000, 0x00000000,
     0x00000000, 0x00000000, 0x00000000, 0x00000000, 0x00000000, 0x00000000, 0x00000000, 0x00000230] =
    [0x617A3D71, 0x75788000, 0x00000000, 0x00000000, 0x00000000, 0x00000000, 0x00000000, 0x00000000,
     0x00000000, 0x00000000, 0x00000000, 0x00000000, 0x00000000, 0x00000000, 0x00000000, 0x00000230,
     0x8FC039CF, 0x76D68000, 0x1BFDC616, 0x901D8011, 0x5BCF31F0, 0x702EFD6D, 0x7ED0D782, 0x30C7577C,
     0xE8054487, 0x5D5B75C4, 0x9B068864, 0x301D25CB, 0x05471CAE, 0xB521D0C6, 0xFF16EB8A, 0x3AF06FB1,
     0x43DEF61B, 0xAACAD452, 0x4321190F, 0xEDA0BDF6, 0x2C6662C4, 0xF78BD12D, 0xE29939CA, 0x4B264D6F,
     0xAD15732F, 0x07D50F14, 0x7991FFC3, 0x1E76EBDF, 0xACDA7A51, 0xF14D4B42, 0x3B4EB1F6, 0x78760C95,
     0xDF977421, 0x3CC494A6, 0x954E247F, 0x88A92CAA, 0xA59E29F2, 0xAEA17019, 0x71A70053, 0xD7157C2E,
     0xB549D105, 0xA4FC6A2D, 0xDBD06217, 0xA4E60054, 0x62175CA1, 0x6A611092, 0xFF1BBA58, 0x5D47755B]"
  by (simp add: expand_eval schedule_word_def rotr_def Let_def wrap32_eval)

lemma bench_rounds2:
  "foldl round256
    [0x57BAD01A, 0x8978FC62, 0xB89D183E, 0x5C0CB47A,
     0x2C5DF625, 0x7635FC4C, 0x08D2C55F, 0xF300F0C1]
    (zip K256
    [0x617A3D71, 0x75788000, 0x00000000, 0x00000000, 0x00000000, 0x00000000, 0x00000000, 0x00000000,
     0x00000000, 0x00000000, 0x00000000, 0x00000000, 0x00000000, 0x00000000, 0x00000000, 0x00000230,
     0x8FC039CF, 0x76D68000, 0x1BFDC616, 0x901D8011, 0x5BCF31F0, 0x702EFD6D, 0x7ED0D782, 0x30C7577C,
     0xE8054487, 0x5D5B75C4, 0x9B068864, 0x301D25CB, 0x05471CAE, 0xB521D0C6, 0xFF16EB8A, 0x3AF06FB1,
     0x43DEF61B, 0xAACAD452, 0x4321190F, 0xEDA0BDF6, 0x2C6662C4, 0xF78BD12D, 0xE29939CA, 0x4B264D6F,
     0xAD15732F, 0x07D50F14, 0x7991FFC3, 0x1E76EBDF, 0xACDA7A51, 0xF14D4B42, 0x3B4EB1F6, 0x78760C95,
     0xDF977421, 0x3CC494A6, 0x954E247F, 0x88A92CAA, 0xA59E29F2, 0xAEA17019, 0x71A70053, 0xD7157C2E,
     0xB549D105, 0xA4FC6A2D, 0xDBD06217, 0xA4E60054, 0x62175CA1, 0x6A611092, 0xFF1BBA58, 0x5D47755B]) =
    [0x281C276C, 0xFE1EFB59, 0xFE836104, 0x301B459C,
     0x2696A2B6, 0x768FCA5D, 0xDD58F7D2, 0xC49FC743]"
  by (simp add: K256_def round256_eval rotr_def Let_def wrap32_eval
      del: round256.simps)

lemma bench_block2:
  "block256
    [0x57BAD01A, 0x8978FC62, 0xB89D183E, 0x5C0CB47A,
     0x2C5DF625, 0x7635FC4C, 0x08D2C55F, 0xF300F0C1]
    [0x61, 0x7A, 0x3D, 0x71, 0x75, 0x78, 0x80, 0x00, 0x00, 0x00, 0x00, 0x00, 0x00, 0x00, 0x00, 0x00,
     0x00, 0x00, 0x00, 0x00, 0x00, 0x00, 0x00, 0x00, 0x00, 0x00, 0x00, 0x00, 0x00, 0x00, 0x00, 0x00,
     0x00, 0x00, 0x00, 0x00, 0x00, 0x00, 0x00, 0x00, 0x00, 0x00, 0x00, 0x00, 0x00, 0x00, 0x00, 0x00,
     0x00, 0x00, 0x00, 0x00, 0x00, 0x00, 0x00, 0x00, 0x00, 0x00, 0x00, 0x00, 0x00, 0x00, 0x02, 0x30] =
    [0x7FD6F786, 0x8797F7BB, 0xB7207942, 0x8C27FA16,
     0x52F498DB, 0xECC5C6A9, 0xE62BBD31, 0xB7A0B804]"
  unfolding block256_def bench_words2 bench_schedule2 bench_rounds2
  by simp

lemma bench_digest:
  "sha256_Sum256 (bytes_of ''https://example.com/very/long/url/with/many/parameters?foo=bar&baz=qux'') =
    [0x7F, 0xD6, 0xF7, 0x86, 0x87, 0x97, 0xF7, 0xBB, 0xB7, 0x20, 0x79, 0x42, 0x8C, 0x27, 0xFA, 0x16,
     0x52, 0xF4, 0x98, 0xDB, 0xEC, 0xC5, 0xC6, 0xA9, 0xE6, 0x2B, 0xBD, 0x31, 0xB7, 0xA0, 0xB8, 0x04]"
  unfolding sha256_Sum256_def bench_chunks
  by (simp add: blockGeneric.simps init256_def bench_block1 bench_block2 PutUint32_def)

lemma bench_code:
  "generateShortCode ''https://example.com/very/long/url/with/many/parameters?foo=bar&baz=qux'' = ''7fd6f786''"
  by (simp add: generateShortCode_def bench_digest hex_EncodeToString_def hextable_def)

lemmas fixtures =
  test_env_def test_Parse_def test_Unmarshal_def json_headers_def post_create_def
  get_short_def foo_record_def world_of_def index_def

section \<open>Facts about the store and the handlers\<close>

lemma table_publishCustomMetric [simp]:
  "table (snd (publishCustomMetric E n v w)) = table w"
  by (simp add: publishCustomMetric_def)

lemma find_key_filter_other:
  "k \<noteq> c \<Longrightarrow>
   find (\<lambda>it. item_key it = k) (filter (\<lambda>x. item_key x \<noteq> c) xs) = find (\<lambda>it. item_key it = k) xs"
  by (induction xs) auto

lemma find_key_Some:
  "find (\<lambda>it. item_key it = k) xs = Some it \<Longrightarrow> item_key it = k"
  by (induction xs) (auto split: if_splits)

lemma handleCreate_valid:
  assumes "json_Unmarshal E (request.Body req) = Inr m"
    and "index m ''url'' = raw"
    and "raw \<noteq> []"
    and "url_Parse E raw = Inr u"
    and "Scheme u = ''http'' \<or> Scheme u = ''https''"
    and "\<not> PutItem_err E"
  shows "handleCreate E req hdrs w =
    ((\<lparr>StatusCode = 200, Headers = hdrs,
       Body = json_Marshal E
         [(''short_url'', JString (baseURL E @ ''/s/'' @ generateShortCode raw)),
          (''expires_at'', JString (time_Format E (time_Now E 0 + 604800)))]\<rparr>, None),
     w\<lparr>table :=
         Attrs \<lparr>ShortCode = generateShortCode raw, OriginalURL = raw,
                ExpiresAt = time_Now E 0 + 604800,
                CreatedAt = time_Format E (time_Now E 1), ClickCount = 0\<rparr>
         # filter (\<lambda>x. item_key x \<noteq> generateShortCode raw) (table w)\<rparr>)"
  using assms
  by (auto simp add: handleCreate_def Let_def PutItem_def generateShortCode_def)

lemma handleRedirect_hit:
  assumes "\<not> GetItem_err E"
    and "find (\<lambda>it. item_key it = index (PathParameters req) ''shortCode'') (table w) = Some (Attrs r)"
    and "\<not> ExpiresAt r <s time_Now E 0"
  shows "handleRedirect E req hdrs w =
    ((\<lparr>StatusCode = 301, Headers = hdrs(''Location'' \<mapsto> OriginalURL r), Body = []\<rparr>, None),
     snd (publishCustomMetric E ''UrlsAccessed'' 1
       (if PutItem_err E then w
        else w\<lparr>table := Attrs (r\<lparr>ClickCount := ClickCount r + 1\<rparr>)
                 # filter (\<lambda>x. item_key x \<noteq> ShortCode r) (table w)\<rparr>)))"
  using assms
  by (simp add: handleRedirect_def Let_def GetItem_def PutItem_def)

lemma handleRedirect_write_back:
  assumes "\<not> GetItem_err E"
    and "find (\<lambda>it. item_key it = index (PathParameters req) ''shortCode'') (table w) = Some (Attrs r)"
    and "\<not> ExpiresAt r <s time_Now E 0"
  shows "snd (handleRedirect E req hdrs w) =
    snd (publishCustomMetric E ''UrlsAccessed'' 1 (write_back E r w))"
  by (simp add: handleRedirect_hit [OF assms] write_back_def PutItem_def)

lemma handleRedirect_table:
  "table (snd (handleRedirect E req hdrs w)) = table w \<or>
   (\<exists>r0. find (\<lambda>it. item_key it = index (PathParameters req) ''shortCode'') (table w)
            = Some (Attrs r0) \<and>
         table (snd (handleRedirect E req hdrs w)) =
           Attrs (r0\<lparr>ClickCount := ClickCount r0 + 1\<rparr>)
           # filter (\<lambda>x. item_key x \<noteq> ShortCode r0) (table w))"
proof (cases "GetItem_err E")
  case True
  then show ?thesis
    by (simp add: handleRedirect_def GetItem_def Let_def)
next
  case False
  show ?thesis
  proof (cases "find (\<lambda>it. item_key it = index (PathParameters req) ''shortCode'') (table w)")
    case None
    with False show ?thesis
      by (simp add: handleRedirect_def GetItem_def Let_def)
  next
    case (Some it)
    show ?thesis
    proof (cases it)
      case (Malformed k)
      with False Some show ?thesis
        by (simp add: handleRedirect_def GetItem_def Let_def)
    next
      case (Attrs r0)
      show ?thesis
      proof (cases "ExpiresAt r0 <s time_Now E 0")
        case True
        with False Some Attrs show ?thesis
          by (simp add: handleRedirect_def GetItem_def Let_def)
      next
        case live: False
        from Some Attrs have hit:
          "find (\<lambda>it. item_key it = index (PathParameters req) ''shortCode'') (table w)
             = Some (Attrs r0)"
          by simp
        show ?thesis
          using hit by (simp add: handleRedirect_hit [OF False hit live])
      qed
    qed
  qed
qed

lemma table_handleMetrics: "table (snd (handleMetrics E req hdrs w)) = table w"
  by (simp add: handleMetrics_def Let_def split: sum.splits prod.splits)

text \<open>
  No handler stores an item that does not decode: a table that holds records only keeps
  doing so under every request.
\<close>

lemma only_records_handleCreate:
  "only_records w \<Longrightarrow> only_records (snd (handleCreate E req hdrs w))"
  by (auto simp add: handleCreate_def Let_def PutItem_def only_records_def list_all_iff
      split: sum.splits)

lemma only_records_handleRedirect:
  "only_records w \<Longrightarrow> only_records (snd (handleRedirect E req hdrs w))"
  using handleRedirect_table [of E req hdrs w]
  by (auto simp add: only_records_def list_all_iff)

lemma only_records_handleRequest:
  "only_records w \<Longrightarrow> only_records (snd (handleRequest E req w))"
  by (simp add: handleRequest_def Let_def only_records_handleCreate only_records_handleRedirect)
    (simp add: only_records_def table_handleMetrics)

lemma sint_succ_int64:
  fixes x :: int64
  assumes "x \<noteq> 0x7FFFFFFFFFFFFFFF"
  shows "sint (x + 1) = sint x + 1"
proof -
  have top: "sint (0x7FFFFFFFFFFFFFFF :: int64) = 9223372036854775807"
    by simp
  have "sint x \<noteq> 9223372036854775807"
  proof
    assume "sint x = 9223372036854775807"
    then have "sint x = sint (0x7FFFFFFFFFFFFFFF :: int64)"
      using top by simp
    then have "x = 0x7FFFFFFFFFFFFFFF"
      by (rule signed_word_eqI)
    with assms show False by simp
  qed
  moreover have "sint x < 2 ^ 63" and "- (2 ^ 63) \<le> sint x"
    using sint_lt [of x] sint_ge [of x] by simp_all
  ultimately have "- (2 ^ 63) \<le> sint x + 1" and "sint x + 1 < 2 ^ 63"
    by simp_all
  then have "signed_take_bit 63 (sint x + 1) = sint x + 1"
    by (rule signed_take_bit_int_eq_self)
  then show ?thesis
    by (simp add: sint_word_ariths)
qed

lemma sless_succ_int64:
  fixes x :: int64
  assumes "x \<noteq> 0x7FFFFFFFFFFFFFFF"
  shows "x <s x + 1"
  using sint_succ_int64 [OF assms] by (simp add: word_sless_alt)

section \<open>Create and resolve\<close>

text \<open>
  C1. Take a create request whose URL string \<open>raw\<close> is not empty, is accepted by
  \<^verbatim>\<open>url.Parse\<close> and has the parsed scheme \<open>http\<close> or \<open>https\<close>, and let the
  store write succeed. Then create answers 200 with the short URL
  \<open>baseURL/s/code\<close> for \<open>code = generateShortCode raw\<close>, and a resolve of that code on
  the store that create left behind, with a successful store read and at a time not after
  the record's \<open>ExpiresAt\<close>, answers 301 with the \<open>Location\<close> header equal to \<open>raw\<close>,
  unchanged.
\<close>

theorem create_then_resolve:
  assumes "json_Unmarshal E (request.Body req) = Inr m"
    and "index m ''url'' = raw"
    and "raw \<noteq> []"
    and "url_Parse E raw = Inr u"
    and "Scheme u = ''http'' \<or> Scheme u = ''https''"
    and "\<not> PutItem_err E"
    and "index (PathParameters req') ''shortCode'' = generateShortCode raw"
    and "\<not> GetItem_err E'"
    and "\<not> time_Now E 0 + 604800 <s time_Now E' 0"
  shows "fst (handleCreate E req hdrs w) =
      (\<lparr>StatusCode = 200, Headers = hdrs,
        Body = json_Marshal E
          [(''short_url'', JString (baseURL E @ ''/s/'' @ generateShortCode raw)),
           (''expires_at'', JString (time_Format E (time_Now E 0 + 604800)))]\<rparr>, None) \<and>
    fst (handleRedirect E' req' hdrs' (snd (handleCreate E req hdrs w))) =
      (\<lparr>StatusCode = 301, Headers = hdrs'(''Location'' \<mapsto> raw), Body = []\<rparr>, None)"
proof -
  let ?r = "\<lparr>ShortCode = generateShortCode raw, OriginalURL = raw,
             ExpiresAt = time_Now E 0 + 604800,
             CreatedAt = time_Format E (time_Now E 1), ClickCount = 0\<rparr>"
  let ?w = "snd (handleCreate E req hdrs w)"
  note c = handleCreate_valid [OF assms(1-6), of hdrs w]
  have "find (\<lambda>it. item_key it = index (PathParameters req') ''shortCode'') (table ?w)
      = Some (Attrs ?r)"
    by (simp add: c assms(7))
  moreover have "\<not> ExpiresAt ?r <s time_Now E' 0"
    using assms(9) by simp
  ultimately have "handleRedirect E' req' hdrs' ?w =
    ((\<lparr>StatusCode = 301, Headers = hdrs'(''Location'' \<mapsto> OriginalURL ?r), Body = []\<rparr>, None),
     snd (publishCustomMetric E' ''UrlsAccessed'' 1
       (if PutItem_err E' then ?w
        else ?w\<lparr>table := Attrs (?r\<lparr>ClickCount := ClickCount ?r + 1\<rparr>)
                 # filter (\<lambda>x. item_key x \<noteq> ShortCode ?r) (table ?w)\<rparr>)))"
    by (rule handleRedirect_hit [OF assms(8)])
  then show ?thesis
    by (simp add: c)
qed

lemma test_create_foo:
  "json_Unmarshal (test_env 1700000000)
     (request.Body (post_create ''{\"url\":\"https://foo.com\"}''))
     = Inr [''url'' \<mapsto> ''https://foo.com'']"
  "index [''url'' \<mapsto> ''https://foo.com''] ''url'' = ''https://foo.com''"
  "''https://foo.com'' \<noteq> []"
  "url_Parse (test_env 1700000000) ''https://foo.com'' = Inr \<lparr>Scheme = ''https''\<rparr>"
  "Scheme \<lparr>Scheme = ''https''\<rparr> = ''http'' \<or> Scheme \<lparr>Scheme = ''https''\<rparr> = ''https''"
  "\<not> PutItem_err (test_env 1700000000)"
  by (simp_all add: fixtures)

theorem create_then_resolve_witness:
  "fst (handleCreate (test_env 1700000000) (post_create ''{\"url\":\"https://foo.com\"}'')
         json_headers (world_of [])) =
      (\<lparr>StatusCode = 200, Headers = json_headers,
        Body = json_Marshal (test_env 1700000000)
          [(''short_url'', JString ''https://test.vibtellect.de/s/a9a9b569''),
           (''expires_at'', JString (time_Format (test_env 1700000000) 1700604800))]\<rparr>, None) \<and>
   fst (handleRedirect (test_env 1700000100) (get_short ''a9a9b569'') json_headers
         (snd (handleCreate (test_env 1700000000) (post_create ''{\"url\":\"https://foo.com\"}'')
                json_headers (world_of [])))) =
      (\<lparr>StatusCode = 301, Headers = json_headers(''Location'' \<mapsto> ''https://foo.com''),
        Body = []\<rparr>, None)"
proof -
  have code: "index (PathParameters (get_short ''a9a9b569'')) ''shortCode''
      = generateShortCode ''https://foo.com''"
    by (simp add: fixtures foo_code)
  have get: "\<not> GetItem_err (test_env 1700000100)"
    by (simp add: fixtures)
  have live: "\<not> time_Now (test_env 1700000000) 0 + 604800 <s time_Now (test_env 1700000100) 0"
    by (simp add: fixtures word_sless_alt)
  show ?thesis
    using create_then_resolve [OF test_create_foo code get live, where hdrs = json_headers
        and w = "world_of []" and hdrs' = json_headers]
    by (simp add: fixtures foo_code)
qed

text \<open>
  C2. For every URL string \<open>raw\<close> that create accepts, the record it writes has as
  \<open>ShortCode\<close> the first 8 characters of the lower-case hex encoding of the SHA-256
  digest of the bytes of \<open>raw\<close> as received, and the returned short URL ends in that
  code. The code is a function of \<open>raw\<close> alone, so equal URL strings get equal codes;
  for \<open>https://foo.com\<close> it is \<open>a9a9b569\<close> and for \<open>https://bar.com\<close> it is
  \<open>23d97719\<close>.
\<close>

theorem create_short_code:
  assumes "json_Unmarshal E (request.Body req) = Inr m"
    and "index m ''url'' = raw"
    and "raw \<noteq> []"
    and "url_Parse E raw = Inr u"
    and "Scheme u = ''http'' \<or> Scheme u = ''https''"
    and "\<not> PutItem_err E"
  shows "(\<exists>r rest. table (snd (handleCreate E req hdrs w)) = Attrs r # rest \<and>
            ShortCode r = take 8 (hex_EncodeToString (sha256_Sum256 (bytes_of raw))) \<and>
            response.Body (fst (fst (handleCreate E req hdrs w))) =
              json_Marshal E
                [(''short_url'', JString (baseURL E @ ''/s/'' @ ShortCode r)),
                 (''expires_at'', JString (time_Format E (ExpiresAt r)))]) \<and>
         (raw = ''https://foo.com'' \<longrightarrow>
            take 8 (hex_EncodeToString (sha256_Sum256 (bytes_of raw))) = ''a9a9b569'') \<and>
         (raw = ''https://bar.com'' \<longrightarrow>
            take 8 (hex_EncodeToString (sha256_Sum256 (bytes_of raw))) = ''23d97719'')"
  using foo_code bar_code
  by (simp add: handleCreate_valid [OF assms] generateShortCode_def)

theorem create_short_code_witness:
  "(\<exists>r rest. table (snd (handleCreate (test_env 1700000000)
                  (post_create ''{\"url\":\"https://foo.com\"}'') json_headers (world_of [])))
              = Attrs r # rest \<and> ShortCode r = ''a9a9b569'')"
  using create_short_code [OF test_create_foo, where hdrs = json_headers and w = "world_of []"] foo_code
  by auto

text \<open>
  C3. When the URL string of a create request is empty, or \<^verbatim>\<open>url.Parse\<close> rejects it,
  or its parsed scheme is neither \<open>http\<close> nor \<open>https\<close>, create answers 400 with a
  nil error and leaves the world as it found it: nothing is written. The empty string is
  answered by the emptiness check itself (\<open>URL parameter is required\<close>), which comes
  before parsing and before the code is derived.
\<close>

theorem create_rejects_invalid:
  assumes "json_Unmarshal E (request.Body req) = Inr m"
    and "index m ''url'' = raw"
    and "raw = [] \<or> (\<exists>e. url_Parse E raw = Inl e) \<or>
         (\<exists>u. url_Parse E raw = Inr u \<and> Scheme u \<noteq> ''http'' \<and> Scheme u \<noteq> ''https'')"
  shows "StatusCode (fst (fst (handleCreate E req hdrs w))) = 400 \<and>
         snd (fst (handleCreate E req hdrs w)) = None \<and>
         snd (handleCreate E req hdrs w) = w \<and>
         (raw = [] \<longrightarrow>
            fst (fst (handleCreate E req hdrs w)) =
              \<lparr>StatusCode = 400, Headers = hdrs,
               Body = ''{\"error\": \"URL parameter is required\"}''\<rparr>)"
  using assms
  by (auto simp add: handleCreate_def Let_def)

theorem create_rejects_invalid_witness:
  "handleCreate (test_env 1700000000) (post_create ''{}'') json_headers (world_of [Malformed ''k''])
     = ((\<lparr>StatusCode = 400, Headers = json_headers,
          Body = ''{\"error\": \"URL parameter is required\"}''\<rparr>, None),
        world_of [Malformed ''k'']) \<and>
   StatusCode (fst (fst (handleCreate (test_env 1700000000)
     (post_create ''{\"url\":\"ftp://foo.com\"}'') json_headers (world_of [Malformed ''k''])))) = 400 \<and>
   snd (handleCreate (test_env 1700000000)
     (post_create ''{\"url\":\"ftp://foo.com\"}'') json_headers (world_of [Malformed ''k'']))
     = world_of [Malformed ''k'']"
proof -
  have e1: "json_Unmarshal (test_env 1700000000) (request.Body (post_create ''{}'')) = Inr Map.empty"
    and e2: "index Map.empty ''url'' = []"
    and e3: "[] = [] \<or> (\<exists>e. url_Parse (test_env 1700000000) [] = Inl e) \<or>
         (\<exists>u. url_Parse (test_env 1700000000) [] = Inr u \<and> Scheme u \<noteq> ''http'' \<and> Scheme u \<noteq> ''https'')"
    by (simp_all add: fixtures)
  have f1: "json_Unmarshal (test_env 1700000000)
        (request.Body (post_create ''{\"url\":\"ftp://foo.com\"}'')) = Inr [''url'' \<mapsto> ''ftp://foo.com'']"
    and f2: "index [''url'' \<mapsto> ''ftp://foo.com''] ''url'' = ''ftp://foo.com''"
    and f3: "''ftp://foo.com'' = [] \<or> (\<exists>e. url_Parse (test_env 1700000000) ''ftp://foo.com'' = Inl e) \<or>
         (\<exists>u. url_Parse (test_env 1700000000) ''ftp://foo.com'' = Inr u \<and> Scheme u \<noteq> ''http'' \<and> Scheme u \<noteq> ''https'')"
    by (simp_all add: fixtures)
  show ?thesis
    using create_rejects_invalid [OF e1 e2 e3, of json_headers "world_of [Malformed ''k'']"]
      create_rejects_invalid [OF f1 f2 f3, of json_headers "world_of [Malformed ''k'']"]
    by (simp add: prod_eq_iff)
qed

text \<open>
  C4, as the code has it. With a successful store read, resolve answers 404 and leaves the
  world unchanged both when no item is stored under the code and when the stored record
  has \<open>ExpiresAt\<close> strictly before the current time. The body is
  \<open>{"error": "Short URL not found"}\<close> in the first case and
  \<open>{"error": "Short URL has expired"}\<close> in the second.
\<close>

theorem resolve_missing_or_expired:
  assumes "\<not> GetItem_err E"
  shows "(find (\<lambda>it. item_key it = index (PathParameters req) ''shortCode'') (table w) = None \<longrightarrow>
            handleRedirect E req hdrs w =
              ((\<lparr>StatusCode = 404, Headers = hdrs,
                 Body = ''{\"error\": \"Short URL not found\"}''\<rparr>, None), w)) \<and>
         (\<forall>r. find (\<lambda>it. item_key it = index (PathParameters req) ''shortCode'') (table w)
                 = Some (Attrs r) \<and> ExpiresAt r <s time_Now E 0 \<longrightarrow>
            handleRedirect E req hdrs w =
              ((\<lparr>StatusCode = 404, Headers = hdrs,
                 Body = ''{\"error\": \"Short URL has expired\"}''\<rparr>, None), w))"
  using assms
  by (simp add: handleRedirect_def Let_def GetItem_def)

theorem resolve_missing_or_expired_witness:
  "handleRedirect (test_env 1700000000) (get_short ''a9a9b569'') json_headers (world_of [])
     = ((\<lparr>StatusCode = 404, Headers = json_headers,
          Body = ''{\"error\": \"Short URL not found\"}''\<rparr>, None), world_of []) \<and>
   handleRedirect (test_env 1700000000) (get_short ''a9a9b569'') json_headers
       (world_of [Attrs (foo_record 1600000000 3)])
     = ((\<lparr>StatusCode = 404, Headers = json_headers,
          Body = ''{\"error\": \"Short URL has expired\"}''\<rparr>, None),
        world_of [Attrs (foo_record 1600000000 3)])"
proof -
  have g: "\<not> GetItem_err (test_env 1700000000)"
    by (simp add: fixtures)
  have none: "find (\<lambda>it. item_key it = index (PathParameters (get_short ''a9a9b569'')) ''shortCode'')
      (table (world_of [])) = None"
    by (simp add: fixtures)
  have some: "find (\<lambda>it. item_key it = index (PathParameters (get_short ''a9a9b569'')) ''shortCode'')
      (table (world_of [Attrs (foo_record 1600000000 3)])) = Some (Attrs (foo_record 1600000000 3))"
    by (simp add: fixtures)
  have old: "ExpiresAt (foo_record 1600000000 3) <s time_Now (test_env 1700000000) 0"
    by (simp add: fixtures word_sless_alt)
  show ?thesis
    using resolve_missing_or_expired [OF g, of "get_short ''a9a9b569''" "world_of []" json_headers]
      resolve_missing_or_expired [OF g, of "get_short ''a9a9b569''"
        "world_of [Attrs (foo_record 1600000000 3)]" json_headers]
      none some old
    by blast
qed

theorem resolve_expired_body_counterexample:
  "find (\<lambda>it. item_key it = ''a9a9b569'') (table (world_of [Attrs (foo_record 1600000000 3)]))
     = Some (Attrs (foo_record 1600000000 3)) \<and>
   ExpiresAt (foo_record 1600000000 3) <s time_Now (test_env 1700000000) 0 \<and>
   fst (fst (handleRedirect (test_env 1700000000) (get_short ''a9a9b569'') json_headers
     (world_of [Attrs (foo_record 1600000000 3)])))
     \<noteq> \<lparr>StatusCode = 404, Headers = json_headers,
         Body = ''{\"error\": \"Short URL not found\"}''\<rparr>"
  by (simp add: fixtures handleRedirect_def GetItem_def Let_def word_sless_alt)

text \<open>
  C5. For a stored record that has not expired, the response of resolve is the 301
  redirect to the record's \<open>OriginalURL\<close>, with the handler's headers plus
  \<open>Location\<close>, an empty body and a nil error, whatever happens to the write-back of
  the click count (\<open>put_fails\<close>) and to the metric (\<open>no_client\<close>,
  \<open>metric_fails\<close>).
\<close>

theorem redirect_ignores_secondary_failures:
  assumes "\<not> GetItem_err E"
    and "find (\<lambda>it. item_key it = index (PathParameters req) ''shortCode'') (table w) = Some (Attrs r)"
    and "\<not> ExpiresAt r <s time_Now E 0"
  shows "fst (handleRedirect
            (E\<lparr>PutItem_err := put_fails, cloudwatchClient_nil := no_client,
               PutMetricData_err := metric_fails\<rparr>) req hdrs w) =
         (\<lparr>StatusCode = 301, Headers = hdrs(''Location'' \<mapsto> OriginalURL r), Body = []\<rparr>, None)"
proof -
  let ?E = "E\<lparr>PutItem_err := put_fails, cloudwatchClient_nil := no_client,
              PutMetricData_err := metric_fails\<rparr>"
  have "\<not> GetItem_err ?E" and "\<not> ExpiresAt r <s time_Now ?E 0"
    using assms by simp_all
  from handleRedirect_hit [OF this(1) assms(2) this(2)] show ?thesis
    by simp
qed

lemma test_hit:
  "\<not> GetItem_err (test_env 1700000000)"
  "find (\<lambda>it. item_key it = index (PathParameters (get_short ''a9a9b569'')) ''shortCode'')
     (table (world_of [Attrs (foo_record 1700604800 3)])) = Some (Attrs (foo_record 1700604800 3))"
  "\<not> ExpiresAt (foo_record 1700604800 3) <s time_Now (test_env 1700000000) 0"
  by (simp_all add: fixtures word_sless_alt)

theorem redirect_ignores_secondary_failures_witness:
  "fst (handleRedirect
     ((test_env 1700000000)\<lparr>PutItem_err := True, cloudwatchClient_nil := False,
        PutMetricData_err := True\<rparr>)
     (get_short ''a9a9b569'') json_headers (world_of [Attrs (foo_record 1700604800 3)])) =
   (\<lparr>StatusCode = 301, Headers = json_headers(''Location'' \<mapsto> ''https://foo.com''),
     Body = []\<rparr>, None)"
  using redirect_ignores_secondary_failures [OF test_hit, of True False True json_headers]
  by (simp add: foo_record_def)

text \<open>
  C6. A create that succeeds puts, without any condition on what the key held before, a
  record with the derived short code, the URL as received and \<open>ClickCount = 0\<close>
  (\<open>handleCreate_valid\<close>). Its two times come from two readings of the clock: one for
  \<open>ExpiresAt\<close>, and a later one for \<open>CreatedAt\<close>. When the clock ticks between them,
  here from 1700000000 to 1700000001, the record stored has \<open>ExpiresAt = 1700604800\<close>,
  which is 1700000000 plus 604800 seconds, next to the \<open>CreatedAt\<close> text of 1700000001:
  seven days before its expiry the clock showed 22:13:20, and \<open>CreatedAt\<close> says 22:13:21.
\<close>

theorem create_clock_tick:
  "find (\<lambda>it. item_key it = ''a9a9b569'')
     (table (snd (handleCreate tick_env (post_create ''{\"url\":\"https://foo.com\"}'')
        json_headers (world_of [])))) =
     Some (Attrs \<lparr>ShortCode = ''a9a9b569'', OriginalURL = ''https://foo.com'',
                  ExpiresAt = 1700604800, CreatedAt = ''2023-11-14T22:13:21Z'',
                  ClickCount = 0\<rparr>) \<and>
   time_Format tick_env (1700604800 - 604800) = ''2023-11-14T22:13:20Z''"
proof -
  have valid:
    "json_Unmarshal tick_env (request.Body (post_create ''{\"url\":\"https://foo.com\"}''))
       = Inr [''url'' \<mapsto> ''https://foo.com'']"
    "index [''url'' \<mapsto> ''https://foo.com''] ''url'' = ''https://foo.com''"
    "''https://foo.com'' \<noteq> []"
    "url_Parse tick_env ''https://foo.com'' = Inr \<lparr>Scheme = ''https''\<rparr>"
    "Scheme \<lparr>Scheme = ''https''\<rparr> = ''http'' \<or> Scheme \<lparr>Scheme = ''https''\<rparr> = ''https''"
    "\<not> PutItem_err tick_env"
    by (simp_all add: tick_env_def fixtures)
  show ?thesis
    by (simp add: handleCreate_valid [OF valid] foo_code)
      (simp add: tick_env_def test_Format_def fixtures)
qed

text \<open>
  C7. A resolve of a stored, unexpired record whose write-back succeeds replaces the item
  under the record's key by a record that agrees with the one read in \<open>ShortCode\<close>,
  \<open>OriginalURL\<close>, \<open>CreatedAt\<close> and \<open>ExpiresAt\<close>, and whose \<open>ClickCount\<close> is the
  previous value plus 1 in \<^verbatim>\<open>int64\<close> arithmetic (the integer successor unless the
  count was at the \<^verbatim>\<open>int64\<close> maximum).
\<close>

theorem resolve_writes_back_incremented:
  assumes "\<not> GetItem_err E"
    and "find (\<lambda>it. item_key it = index (PathParameters req) ''shortCode'') (table w) = Some (Attrs r)"
    and "\<not> ExpiresAt r <s time_Now E 0"
    and "\<not> PutItem_err E"
  shows "\<exists>r'. table (snd (handleRedirect E req hdrs w)) =
                 Attrs r' # filter (\<lambda>x. item_key x \<noteq> ShortCode r) (table w) \<and>
              ShortCode r' = ShortCode r \<and> OriginalURL r' = OriginalURL r \<and>
              CreatedAt r' = CreatedAt r \<and> ExpiresAt r' = ExpiresAt r \<and>
              ClickCount r' = ClickCount r + 1 \<and>
              (ClickCount r \<noteq> 0x7FFFFFFFFFFFFFFF \<longrightarrow>
                 sint (ClickCount r') = sint (ClickCount r) + 1)"
proof -
  let ?r' = "r\<lparr>ClickCount := ClickCount r + 1\<rparr>"
  have "table (snd (handleRedirect E req hdrs w)) =
      Attrs ?r' # filter (\<lambda>x. item_key x \<noteq> ShortCode r) (table w)"
    using assms(4) by (simp add: handleRedirect_hit [OF assms(1-3)])
  moreover have "ClickCount r \<noteq> 0x7FFFFFFFFFFFFFFF \<longrightarrow>
      sint (ClickCount ?r') = sint (ClickCount r) + 1"
    by (simp add: sint_succ_int64)
  ultimately show ?thesis
    by (intro exI [of _ ?r']) simp
qed

theorem resolve_writes_back_incremented_witness:
  "table (snd (handleRedirect (test_env 1700000000) (get_short ''a9a9b569'') json_headers
      (world_of [Attrs (foo_record 1700604800 3)]))) = [Attrs (foo_record 1700604800 4)]"
proof -
  have p: "\<not> PutItem_err (test_env 1700000000)"
    by (simp add: fixtures)
  show ?thesis
    using resolve_writes_back_incremented [OF test_hit p, of json_headers]
    by (auto simp add: fixtures)
qed

section \<open>Report\<close>

lemma count_item_simps:
  "count_item (c, a) (Attrs r) = (c + 1, a + ClickCount r)"
  "count_item (c, a) (Malformed k) = (c, a)"
  by (simp_all add: count_item_def)

lemma foldl_count_item:
  "foldl count_item (c, a) items =
     (c + word_of_nat (length (scanned_records items)),
      a + sum_list (map ClickCount (scanned_records items)))"
proof (induction items arbitrary: c a)
  case Nil
  show ?case by simp
next
  case (Cons it items)
  show ?case
  proof (cases it)
    case (Attrs r)
    then show ?thesis
      by (simp add: count_item_simps Cons.IH add.assoc)
  next
    case (Malformed k)
    then show ?thesis
      by (simp add: count_item_simps Cons.IH)
  qed
qed

lemma scanned_records_only:
  "list_all is_record items \<Longrightarrow> map Attrs (scanned_records items) = items"
proof (induction items)
  case Nil
  show ?case by simp
next
  case (Cons it items)
  then show ?case
    by (cases it) simp_all
qed

lemma sint_of_nat_int64:
  assumes "n < 2 ^ 63"
  shows "sint (word_of_nat n :: int64) = int n"
proof -
  from assms have "int n < int (2 ^ 63)"
    by (simp only: of_nat_less_iff)
  then have "int n < 2 ^ 63"
    by (simp only: of_nat_power of_nat_numeral)
  moreover have "- (2 ^ 63) \<le> int n"
    by (rule order_trans [of _ 0]) simp_all
  ultimately have "signed_take_bit 63 (int n) = int n"
    by (intro signed_take_bit_int_eq_self)
  moreover have "sint (word_of_nat n :: int64) = signed_take_bit 63 (int n)"
    by (simp add: signed_of_nat)
  ultimately show ?thesis
    by (simp only:)
qed

lemma sint_sum_ClickCount:
  assumes "list_all (\<lambda>r. 0 \<le>s ClickCount r) rs"
    and "(\<Sum>r\<leftarrow>rs. sint (ClickCount r)) < 2 ^ 63"
  shows "sint (sum_list (map ClickCount rs)) = (\<Sum>r\<leftarrow>rs. sint (ClickCount r))"
  using assms
proof (induction rs)
  case Nil
  show ?case by simp
next
  case (Cons r rs)
  from Cons.prems(1) have r: "0 \<le> sint (ClickCount r)"
    and rs: "list_all (\<lambda>r. 0 \<le>s ClickCount r) rs"
    by (simp_all add: word_sle_eq)
  from rs have nonneg: "0 \<le> (\<Sum>r\<leftarrow>rs. sint (ClickCount r))"
    by (induction rs) (simp_all add: word_sle_eq)
  from Cons.prems(2) r have "(\<Sum>r\<leftarrow>rs. sint (ClickCount r)) < 2 ^ 63"
    by simp
  with rs have tail: "sint (sum_list (map ClickCount rs)) = (\<Sum>r\<leftarrow>rs. sint (ClickCount r))"
    by (rule Cons.IH)
  have "- (2 ^ 63) \<le> sint (ClickCount r) + (\<Sum>r\<leftarrow>rs. sint (ClickCount r))"
    using r nonneg by simp
  moreover have "sint (ClickCount r) + (\<Sum>r\<leftarrow>rs. sint (ClickCount r)) < 2 ^ 63"
    using Cons.prems(2) by simp
  ultimately have "signed_take_bit 63 (sint (ClickCount r) + (\<Sum>r\<leftarrow>rs. sint (ClickCount r)))
      = sint (ClickCount r) + (\<Sum>r\<leftarrow>rs. sint (ClickCount r))"
    by (rule signed_take_bit_int_eq_self)
  then show ?case
    by (simp add: sint_word_ariths tail)
qed

text \<open>
  C8. When the scan succeeds on a table that holds records only, as every table written by
  the handlers does, report answers 200 with \<open>urls_created\<close> and \<open>active_urls\<close> both
  the number of records scanned, and \<open>urls_accessed\<close> and \<open>unique_visitors\<close> both the
  sum of the scanned records' click counts. The counters are \<^verbatim>\<open>int64\<close>: they read as
  the integer count and the integer sum whenever these fit (fewer than \<open>2 ^ 63\<close> records,
  non-negative click counts with a sum below \<open>2 ^ 63\<close>). On an empty table all four are
  zero, and no error is returned.
\<close>

theorem metrics_counts_records:
  assumes "Scan E w = Inr items"
    and "only_records w"
  shows "fst (handleMetrics E req hdrs w) =
           (\<lparr>StatusCode = 200, Headers = hdrs,
             Body = json_Marshal E
               [(''urls_created'', JInt (word_of_nat (length items))),
                (''urls_accessed'', JInt (sum_list (map ClickCount (scanned_records items)))),
                (''unique_visitors'', JInt (sum_list (map ClickCount (scanned_records items)))),
                (''active_urls'', JInt (word_of_nat (length items))),
                (''timestamp'', JString (time_Format E (time_Now E 0)))]\<rparr>, None) \<and>
         map Attrs (scanned_records items) = items \<and>
         (length items < 2 ^ 63 \<longrightarrow>
            sint (word_of_nat (length items) :: int64) = int (length items)) \<and>
         (list_all (\<lambda>r. 0 \<le>s ClickCount r) (scanned_records items) \<and>
          (\<Sum>r\<leftarrow>scanned_records items. sint (ClickCount r)) < 2 ^ 63 \<longrightarrow>
            sint (sum_list (map ClickCount (scanned_records items))) =
              (\<Sum>r\<leftarrow>scanned_records items. sint (ClickCount r))) \<and>
         (items = [] \<longrightarrow>
            fst (handleMetrics E req hdrs w) =
              (\<lparr>StatusCode = 200, Headers = hdrs,
                Body = json_Marshal E
                  [(''urls_created'', JInt 0), (''urls_accessed'', JInt 0),
                   (''unique_visitors'', JInt 0), (''active_urls'', JInt 0),
                   (''timestamp'', JString (time_Format E (time_Now E 0)))]\<rparr>, None))"
proof -
  from assms have records: "list_all is_record items"
    by (auto simp add: Scan_def only_records_def split: if_splits)
  then have all: "map Attrs (scanned_records items) = items"
    by (rule scanned_records_only)
  then have "length (map Attrs (scanned_records items)) = length items"
    by (simp only:)
  then have len: "length (scanned_records items) = length items"
    by simp
  have scan: "Scan E (snd (publishCustomMetric E ''MetricsAccessed'' 1 w)) = Inr items"
    using assms(1) by (simp add: Scan_def split: if_splits)
  have main: "fst (handleMetrics E req hdrs w) =
           (\<lparr>StatusCode = 200, Headers = hdrs,
             Body = json_Marshal E
               [(''urls_created'', JInt (word_of_nat (length items))),
                (''urls_accessed'', JInt (sum_list (map ClickCount (scanned_records items)))),
                (''unique_visitors'', JInt (sum_list (map ClickCount (scanned_records items)))),
                (''active_urls'', JInt (word_of_nat (length items))),
                (''timestamp'', JString (time_Format E (time_Now E 0)))]\<rparr>, None)"
    by (simp add: handleMetrics_def Let_def scan foldl_count_item len)
  have empty: "items = [] \<longrightarrow>
            fst (handleMetrics E req hdrs w) =
              (\<lparr>StatusCode = 200, Headers = hdrs,
                Body = json_Marshal E
                  [(''urls_created'', JInt 0), (''urls_accessed'', JInt 0),
                   (''unique_visitors'', JInt 0), (''active_urls'', JInt 0),
                   (''timestamp'', JString (time_Format E (time_Now E 0)))]\<rparr>, None)"
    using main by simp
  have count: "length items < 2 ^ 63 \<longrightarrow>
      sint (word_of_nat (length items) :: int64) = int (length items)"
    using sint_of_nat_int64 [of "length items"] by blast
  have total: "list_all (\<lambda>r. 0 \<le>s ClickCount r) (scanned_records items) \<and>
      (\<Sum>r\<leftarrow>scanned_records items. sint (ClickCount r)) < 2 ^ 63 \<longrightarrow>
        sint (sum_list (map ClickCount (scanned_records items))) =
          (\<Sum>r\<leftarrow>scanned_records items. sint (ClickCount r))"
    using sint_sum_ClickCount [of "scanned_records items"] by blast
  from main all count total empty show ?thesis
    by (intro conjI)
qed

theorem metrics_counts_records_witness:
  "fst (handleMetrics (test_env 1700000000) get_metrics json_headers
      (world_of [Attrs (foo_record 1700604800 3), Attrs (bar_record 1600000000 4)])) =
     (\<lparr>StatusCode = 200, Headers = json_headers,
       Body = json_Marshal (test_env 1700000000)
         [(''urls_created'', JInt 2), (''urls_accessed'', JInt 7),
          (''unique_visitors'', JInt 7), (''active_urls'', JInt 2),
          (''timestamp'', JString (time_Format (test_env 1700000000) 1700000000))]\<rparr>, None) \<and>
   fst (handleMetrics (test_env 1700000000) get_metrics json_headers (world_of [])) =
     (\<lparr>StatusCode = 200, Headers = json_headers,
       Body = json_Marshal (test_env 1700000000)
         [(''urls_created'', JInt 0), (''urls_accessed'', JInt 0),
          (''unique_visitors'', JInt 0), (''active_urls'', JInt 0),
          (''timestamp'', JString (time_Format (test_env 1700000000) 1700000000))]\<rparr>, None)"
proof -
  have s2: "Scan (test_env 1700000000)
      (world_of [Attrs (foo_record 1700604800 3), Attrs (bar_record 1600000000 4)])
      = Inr [Attrs (foo_record 1700604800 3), Attrs (bar_record 1600000000 4)]"
    and r2: "only_records (world_of [Attrs (foo_record 1700604800 3), Attrs (bar_record 1600000000 4)])"
    and s0: "Scan (test_env 1700000000) (world_of []) = Inr []"
    and r0: "only_records (world_of [])"
    by (simp_all add: Scan_def only_records_def fixtures)
  show ?thesis
    using metrics_counts_records [OF s2 r2, of get_metrics json_headers]
      metrics_counts_records [OF s0 r0, of get_metrics json_headers]
    by (simp add: fixtures bar_record_def)
qed

section \<open>Click counts over time\<close>

text \<open>
  C9, as the code has it. Applied to the store as one step, a resolve never removes a
  stored record and never lowers its click count: after it, every key that held a record
  still holds one, with a count at least as large, for every count below the \<^verbatim>\<open>int64\<close>
  maximum. A create that succeeds stores click count 0 under its code, whatever record was
  stored there before.
\<close>

theorem click_count_across_resolve_and_create:
  "(\<forall>k r. find (\<lambda>it. item_key it = k) (table w) = Some (Attrs r) \<longrightarrow>
      (\<exists>r'. find (\<lambda>it. item_key it = k) (table (snd (handleRedirect E req hdrs w)))
               = Some (Attrs r') \<and>
            (ClickCount r \<noteq> 0x7FFFFFFFFFFFFFFF \<longrightarrow> ClickCount r \<le>s ClickCount r'))) \<and>
   (json_Unmarshal E' (request.Body req') = Inr m \<and> index m ''url'' \<noteq> [] \<and>
    url_Parse E' (index m ''url'') = Inr u \<and> (Scheme u = ''http'' \<or> Scheme u = ''https'') \<and>
    \<not> PutItem_err E' \<longrightarrow>
      (\<exists>r'. find (\<lambda>it. item_key it = generateShortCode (index m ''url''))
               (table (snd (handleCreate E' req' hdrs' w))) = Some (Attrs r') \<and>
            ClickCount r' = 0))"
proof (intro conjI allI impI)
  fix k r
  assume before: "find (\<lambda>it. item_key it = k) (table w) = Some (Attrs r)"
  let ?sc = "index (PathParameters req) ''shortCode''"
  let ?after = "table (snd (handleRedirect E req hdrs w))"
  from handleRedirect_table [of E req hdrs w]
  show "\<exists>r'. find (\<lambda>it. item_key it = k) ?after = Some (Attrs r') \<and>
      (ClickCount r \<noteq> 0x7FFFFFFFFFFFFFFF \<longrightarrow> ClickCount r \<le>s ClickCount r')"
  proof
    assume "?after = table w"
    with before show ?thesis
      by simp
  next
    assume "\<exists>r0. find (\<lambda>it. item_key it = ?sc) (table w) = Some (Attrs r0) \<and>
      ?after = Attrs (r0\<lparr>ClickCount := ClickCount r0 + 1\<rparr>)
        # filter (\<lambda>x. item_key x \<noteq> ShortCode r0) (table w)"
    then obtain r0 where hit: "find (\<lambda>it. item_key it = ?sc) (table w) = Some (Attrs r0)"
      and after: "?after = Attrs (r0\<lparr>ClickCount := ClickCount r0 + 1\<rparr>)
        # filter (\<lambda>x. item_key x \<noteq> ShortCode r0) (table w)"
      by blast
    from find_key_Some [OF hit] have sc: "ShortCode r0 = ?sc"
      by simp
    show ?thesis
    proof (cases "k = ?sc")
      case True
      with before hit have "r = r0"
        by simp
      moreover have "ClickCount r0 \<noteq> 0x7FFFFFFFFFFFFFFF \<longrightarrow> ClickCount r0 \<le>s ClickCount r0 + 1"
        using sless_succ_int64 [of "ClickCount r0"] by (auto simp add: word_sle_eq word_sless_alt)
      ultimately show ?thesis
        using True sc by (simp add: after)
    next
      case False
      with before show ?thesis
        by (simp add: after sc find_key_filter_other)
    qed
  qed
next
  assume "json_Unmarshal E' (request.Body req') = Inr m \<and> index m ''url'' \<noteq> [] \<and>
    url_Parse E' (index m ''url'') = Inr u \<and> (Scheme u = ''http'' \<or> Scheme u = ''https'') \<and>
    \<not> PutItem_err E'"
  then have "handleCreate E' req' hdrs' w =
    ((\<lparr>StatusCode = 200, Headers = hdrs',
       Body = json_Marshal E'
         [(''short_url'', JString (baseURL E' @ ''/s/'' @ generateShortCode (index m ''url''))),
          (''expires_at'', JString (time_Format E' (time_Now E' 0 + 604800)))]\<rparr>, None),
     w\<lparr>table :=
         Attrs \<lparr>ShortCode = generateShortCode (index m ''url''), OriginalURL = index m ''url'',
                ExpiresAt = time_Now E' 0 + 604800,
                CreatedAt = time_Format E' (time_Now E' 1), ClickCount = 0\<rparr>
         # filter (\<lambda>x. item_key x \<noteq> generateShortCode (index m ''url'')) (table w)\<rparr>)"
    by (intro handleCreate_valid [where u = u and m = m]) simp_all
  then show "\<exists>r'. find (\<lambda>it. item_key it = generateShortCode (index m ''url''))
               (table (snd (handleCreate E' req' hdrs' w))) = Some (Attrs r') \<and>
            ClickCount r' = 0"
    by simp
qed

lemma test_sequence:
  "snd (handleCreate (test_env 1700000000) (post_create ''{\"url\":\"https://foo.com\"}'')
     json_headers (world_of [])) = world_of [Attrs (foo_record 1700604800 0)]"
  "table (snd (handleRedirect (test_env 1700000000) (get_short ''a9a9b569'') json_headers
     (world_of [Attrs (foo_record 1700604800 0)]))) = [Attrs (foo_record 1700604800 1)]"
  "table (snd (handleCreate (test_env 1700000000) (post_create ''{\"url\":\"https://foo.com\"}'')
     json_headers w)) =
     Attrs (foo_record 1700604800 0) # filter (\<lambda>x. item_key x \<noteq> ''a9a9b569'') (table w)"
proof -
  show "snd (handleCreate (test_env 1700000000) (post_create ''{\"url\":\"https://foo.com\"}'')
     json_headers (world_of [])) = world_of [Attrs (foo_record 1700604800 0)]"
    by (simp add: handleCreate_valid [OF test_create_foo] foo_code) (simp add: fixtures)
  have hit: "find (\<lambda>it. item_key it = index (PathParameters (get_short ''a9a9b569'')) ''shortCode'')
      (table (world_of [Attrs (foo_record 1700604800 0)])) = Some (Attrs (foo_record 1700604800 0))"
    and live: "\<not> ExpiresAt (foo_record 1700604800 0) <s time_Now (test_env 1700000000) 0"
    and get: "\<not> GetItem_err (test_env 1700000000)"
    by (simp_all add: fixtures word_sless_alt)
  show "table (snd (handleRedirect (test_env 1700000000) (get_short ''a9a9b569'') json_headers
     (world_of [Attrs (foo_record 1700604800 0)]))) = [Attrs (foo_record 1700604800 1)]"
    by (simp add: handleRedirect_hit [OF get hit live]) (simp add: fixtures)
  show "table (snd (handleCreate (test_env 1700000000) (post_create ''{\"url\":\"https://foo.com\"}'')
     json_headers w)) =
     Attrs (foo_record 1700604800 0) # filter (\<lambda>x. item_key x \<noteq> ''a9a9b569'') (table w)"
    by (simp add: handleCreate_valid [OF test_create_foo] foo_code) (simp add: fixtures)
qed

lemma test_resolve_foo:
  assumes "table w = [Attrs (foo_record 1700604800 c)]"
  shows "table (snd (handleRedirect (test_env 1700000000) (get_short ''a9a9b569'') json_headers w))
     = [Attrs (foo_record 1700604800 (c + 1))]"
proof -
  have hit: "find (\<lambda>it. item_key it = index (PathParameters (get_short ''a9a9b569'')) ''shortCode'')
      (table w) = Some (Attrs (foo_record 1700604800 c))"
    and live: "\<not> ExpiresAt (foo_record 1700604800 c) <s time_Now (test_env 1700000000) 0"
    and get: "\<not> GetItem_err (test_env 1700000000)"
    by (simp_all add: assms fixtures word_sless_alt)
  show ?thesis
    by (simp add: handleRedirect_hit [OF get hit live] assms) (simp add: fixtures)
qed

lemma test_write_back_foo:
  assumes "table w = [Attrs (foo_record 1700604800 c')]"
  shows "table (write_back (test_env 1700000000) (foo_record 1700604800 c) w)
     = [Attrs (foo_record 1700604800 (c + 1))]"
  by (simp add: write_back_def PutItem_def assms fixtures)

text \<open>
  Three ways in which a stored click count goes down. A create after a resolve resets it
  from 1 to 0. A resolve at the \<^verbatim>\<open>int64\<close> maximum wraps to the minimum. And a resolve
  that read count 0 and puts its record back only after two other resolves have brought
  the store to count 2 leaves count 1.
\<close>

theorem click_count_lowered_counterexample:
  "find (\<lambda>it. item_key it = ''a9a9b569'')
     (table (snd (handleRedirect (test_env 1700000000) (get_short ''a9a9b569'') json_headers
        (snd (handleCreate (test_env 1700000000) (post_create ''{\"url\":\"https://foo.com\"}'')
           json_headers (world_of []))))))
     = Some (Attrs (foo_record 1700604800 1)) \<and>
   find (\<lambda>it. item_key it = ''a9a9b569'')
     (table (snd (handleCreate (test_env 1700000000) (post_create ''{\"url\":\"https://foo.com\"}'')
        json_headers
        (snd (handleRedirect (test_env 1700000000) (get_short ''a9a9b569'') json_headers
           (snd (handleCreate (test_env 1700000000) (post_create ''{\"url\":\"https://foo.com\"}'')
              json_headers (world_of []))))))))
     = Some (Attrs (foo_record 1700604800 0)) \<and>
   ClickCount (foo_record 1700604800 0) <s ClickCount (foo_record 1700604800 1) \<and>
   find (\<lambda>it. item_key it = ''a9a9b569'')
     (table (snd (handleRedirect (test_env 1700000000) (get_short ''a9a9b569'') json_headers
        (world_of [Attrs (foo_record 1700604800 0x7FFFFFFFFFFFFFFF)]))))
     = Some (Attrs (foo_record 1700604800 0x8000000000000000)) \<and>
   ClickCount (foo_record 1700604800 0x8000000000000000)
     <s ClickCount (foo_record 1700604800 0x7FFFFFFFFFFFFFFF) \<and>
   find (\<lambda>it. item_key it = ''a9a9b569'') (table (world_of [Attrs (foo_record 1700604800 0)]))
     = Some (Attrs (foo_record 1700604800 0)) \<and>
   find (\<lambda>it. item_key it = ''a9a9b569'')
     (table (snd (handleRedirect (test_env 1700000000) (get_short ''a9a9b569'') json_headers
        (snd (handleRedirect (test_env 1700000000) (get_short ''a9a9b569'') json_headers
           (world_of [Attrs (foo_record 1700604800 0)]))))))
     = Some (Attrs (foo_record 1700604800 2)) \<and>
   find (\<lambda>it. item_key it = ''a9a9b569'')
     (table (write_back (test_env 1700000000) (foo_record 1700604800 0)
        (snd (handleRedirect (test_env 1700000000) (get_short ''a9a9b569'') json_headers
           (snd (handleRedirect (test_env 1700000000) (get_short ''a9a9b569'') json_headers
              (world_of [Attrs (foo_record 1700604800 0)])))))))
     = Some (Attrs (foo_record 1700604800 1)) \<and>
   ClickCount (foo_record 1700604800 1) <s ClickCount (foo_record 1700604800 2)"
proof -
  have w0: "table (world_of [Attrs (foo_record 1700604800 0)]) = [Attrs (foo_record 1700604800 0)]"
    and top: "table (world_of [Attrs (foo_record 1700604800 0x7FFFFFFFFFFFFFFF)])
      = [Attrs (foo_record 1700604800 0x7FFFFFFFFFFFFFFF)]"
    by (simp_all add: world_of_def)
  note one = test_resolve_foo [OF w0]
  note two = test_resolve_foo [OF one]
  note stale = test_write_back_foo [OF two, of 0]
  show ?thesis
    by (simp add: test_sequence test_resolve_foo [OF top] two stale)
      (simp add: foo_record_def world_of_def word_sless_alt)
qed

theorem click_count_across_resolve_and_create_witness:
  "(\<exists>r'. find (\<lambda>it. item_key it = ''a9a9b569'')
       (table (snd (handleRedirect (test_env 1700000000) (get_short ''a9a9b569'') json_headers
          (world_of [Attrs (foo_record 1700604800 3)])))) = Some (Attrs r') \<and>
       ClickCount (foo_record 1700604800 3) \<le>s ClickCount r') \<and>
   (\<exists>r'. find (\<lambda>it. item_key it = ''a9a9b569'')
       (table (snd (handleCreate (test_env 1700000000) (post_create ''{\"url\":\"https://foo.com\"}'')
          json_headers (world_of [Attrs (foo_record 1700604800 3)])))) = Some (Attrs r') \<and>
       ClickCount r' = 0)"
proof -
  have before: "find (\<lambda>it. item_key it = ''a9a9b569'') (table (world_of [Attrs (foo_record 1700604800 3)]))
      = Some (Attrs (foo_record 1700604800 3))"
    and below: "ClickCount (foo_record 1700604800 3) \<noteq> 0x7FFFFFFFFFFFFFFF"
    by (simp_all add: fixtures)
  have valid: "json_Unmarshal (test_env 1700000000)
        (request.Body (post_create ''{\"url\":\"https://foo.com\"}'')) = Inr [''url'' \<mapsto> ''https://foo.com''] \<and>
      index [''url'' \<mapsto> ''https://foo.com''] ''url'' \<noteq> [] \<and>
      url_Parse (test_env 1700000000) (index [''url'' \<mapsto> ''https://foo.com''] ''url'')
        = Inr \<lparr>Scheme = ''https''\<rparr> \<and>
      (Scheme \<lparr>Scheme = ''https''\<rparr> = ''http'' \<or> Scheme \<lparr>Scheme = ''https''\<rparr> = ''https'') \<and>
      \<not> PutItem_err (test_env 1700000000)"
    by (simp add: fixtures)
  have code: "generateShortCode (index [''url'' \<mapsto> ''https://foo.com''] ''url'') = ''a9a9b569''"
    by (simp add: index_def foo_code)
  note inst = click_count_across_resolve_and_create [of "world_of [Attrs (foo_record 1700604800 3)]"
        "test_env 1700000000" "get_short ''a9a9b569''" json_headers "test_env 1700000000"
        "post_create ''{\"url\":\"https://foo.com\"}''" "[''url'' \<mapsto> ''https://foo.com'']"
        "\<lparr>Scheme = ''https''\<rparr>" json_headers]
  from inst [THEN conjunct1, rule_format, OF before] below
  have resolve: "\<exists>r'. find (\<lambda>it. item_key it = ''a9a9b569'')
       (table (snd (handleRedirect (test_env 1700000000) (get_short ''a9a9b569'') json_headers
          (world_of [Attrs (foo_record 1700604800 3)])))) = Some (Attrs r') \<and>
       ClickCount (foo_record 1700604800 3) \<le>s ClickCount r'"
    by blast
  from inst [THEN conjunct2, rule_format, OF valid]
  have create: "\<exists>r'. find (\<lambda>it. item_key it = ''a9a9b569'')
       (table (snd (handleCreate (test_env 1700000000) (post_create ''{\"url\":\"https://foo.com\"}'')
          json_headers (world_of [Attrs (foo_record 1700604800 3)])))) = Some (Attrs r') \<and>
       ClickCount r' = 0"
    unfolding code .
  from resolve create show ?thesis
    by (rule conjI)
qed

section \<open>Every request gets a response\<close>

lemma handleCreate_err: "snd (fst (handleCreate E req hdrs w)) = None"
  by (simp add: handleCreate_def Let_def split: sum.splits)

lemma handleCreate_status:
  "StatusCode (fst (fst (handleCreate E req hdrs w))) \<in> {200, 400, 500}"
  by (simp add: handleCreate_def Let_def split: sum.splits)

lemma handleRedirect_err: "snd (fst (handleRedirect E req hdrs w)) = None"
  by (simp add: handleRedirect_def Let_def split: sum.splits option.splits)

lemma handleRedirect_status:
  "StatusCode (fst (fst (handleRedirect E req hdrs w))) \<in> {301, 404, 500}"
  by (simp add: handleRedirect_def Let_def split: sum.splits option.splits)

lemma handleMetrics_err: "snd (fst (handleMetrics E req hdrs w)) = None"
  by (simp add: handleMetrics_def Let_def split: sum.splits prod.splits)

lemma handleMetrics_status:
  "StatusCode (fst (fst (handleMetrics E req hdrs w))) = 200"
  by (simp add: handleMetrics_def Let_def split: sum.splits prod.splits)

text \<open>
  C10. For every request (any method, path, path parameters and body), every world and
  every behaviour of the environment, \<open>handleRequest\<close> returns a nil error and a
  response whose status code is 200, 301, 400, 404 or 500: bad JSON, a failing store
  call and a failing marshal are all answered with one of these.
\<close>

theorem handleRequest_total:
  "snd (fst (handleRequest E req w)) = None \<and>
   StatusCode (fst (fst (handleRequest E req w))) \<in> {200, 301, 400, 404, 500}"
proof -
  let ?h = "[''Content-Type'' \<mapsto> ''application/json'']"
  have c: "StatusCode (fst (fst (handleCreate E req ?h w))) \<in> {200, 301, 400, 404, 500}"
    using handleCreate_status [of E req ?h w] by auto
  have r: "StatusCode (fst (fst (handleRedirect E req ?h w))) \<in> {200, 301, 400, 404, 500}"
    using handleRedirect_status [of E req ?h w] by auto
  have m: "StatusCode (fst (fst (handleMetrics E req ?h w))) \<in> {200, 301, 400, 404, 500}"
    using handleMetrics_status [of E req ?h w] by auto
  show ?thesis
    unfolding handleRequest_def Let_def
    using c r m by (simp add: handleCreate_err handleRedirect_err handleMetrics_err)
qed

end
